theory Spec2Isabelle
  imports Main "HOL-Library.Word"
begin

unbundle bit_operations_syntax

section \<open>Bytes, strings, errors\<close>

text \<open>
  The wire is a sequence of octets. A Go \<^verbatim>\<open>string\<close> is a sequence of bytes as well
  (the decoder never validates UTF-8), so both are lists of 8-bit words.
  \<open>bytes_of\<close> writes a Go string literal.
\<close>

type_synonym byte = "8 word"
type_synonym gostring = "byte list"

definition bytes_of :: "string \<Rightarrow> gostring" where
  "bytes_of s = map of_char s"

text \<open>
  Every \<^verbatim>\<open>errors.New\<close> / \<^verbatim>\<open>fmt.Errorf\<close> of decoder.go and of the encoder is one
  constructor, named after its message. \<open>EOF\<close> and \<open>ErrUnexpectedEOF\<close> are the two
  errors of \<^verbatim>\<open>io.ReadFull\<close>. \<open>Panic\<close> is not a returned error: it stands for a Go
  run-time panic (a \<^verbatim>\<open>reflect\<close> call on a value of the wrong kind, a negative
  \<^verbatim>\<open>make\<close> length, an index out of range), after which the call does not return.
  \<open>OutsideModel\<close> is no outcome of the source either: it is the answer of the model
  where it does not follow the library (the case folding of letters outside ASCII, see
  \<open>EqualFold\<close>), so a result other than \<open>OutsideModel\<close> is the result of the code.
\<close>

datatype error =
    EOF
  | ErrUnexpectedEOF
  | DecodeNonPointer              \<comment> \<open>cbor: Decode(non-pointer T)\<close>
  | DecodeNil                     \<comment> \<open>cbor: Decode(nil T)\<close>
  | DecodeFailed error            \<comment> \<open>cbor: Decode(T): err\<close>
  | InvalidMajorType              \<comment> \<open>cbor: invalid major type\<close>
  | Float16NotSupported           \<comment> \<open>cbor: float16 not supported\<close>
  | InvalidSimpleValue byte       \<comment> \<open>cbor: invalid simple value: ai\<close>
  | CannotUnmarshalUint           \<comment> \<open>cbor: cannot unmarshal uint into T\<close>
  | CannotUnmarshalInt            \<comment> \<open>cbor: cannot unmarshal int into T\<close>
  | ByteStringTooLong             \<comment> \<open>cbor: byte string too long\<close>
  | CannotUnmarshalByteString     \<comment> \<open>cbor: cannot unmarshal byte string into T\<close>
  | StringTooLong                 \<comment> \<open>cbor: string too long\<close>
  | CannotUnmarshalString         \<comment> \<open>cbor: cannot unmarshal string into T\<close>
  | ArrayTooLong                  \<comment> \<open>cbor: array too long\<close>
  | WrongArrayLength              \<comment> \<open>cbor: wrong array length\<close>
  | CannotUnmarshalArray          \<comment> \<open>cbor: cannot unmarshal array into T\<close>
  | CannotUnmarshalMapKey         \<comment> \<open>cbor: cannot unmarshal map key into K\<close>
  | CannotSkipValue error         \<comment> \<open>cbor: cannot unmarshal map key into T: err\<close>
  | CannotUnmarshalMap            \<comment> \<open>cbor: cannot unmarshal map into T\<close>
  | CannotUnmarshalTagged         \<comment> \<open>cbor: cannot unmarshal (decimal fraction, big float, URI, ...) into T\<close>
  | InvalidTagged                 \<comment> \<open>cbor: invalid (decimal fraction, big float, ...)\<close>
  | TagNotFullyImplemented        \<comment> \<open>cbor: (big complex, decimal fraction, ...) not fully implemented\<close>
  | UnknownTag "64 word"          \<comment> \<open>cbor: unknown tag n\<close>
  | NonPointer                    \<comment> \<open>cbor: cannot unmarshal into non-pointer T\<close>
  | NonEmptyInterface             \<comment> \<open>cbor: cannot unmarshal into non-empty interface T\<close>
  | CannotUnmarshalInto           \<comment> \<open>cbor: cannot unmarshal into T\<close>
  | UnknownField gostring         \<comment> \<open>cbor: unknown field key\<close>
  | InvalidArrayHeader byte       \<comment> \<open>cbor: invalid array header: b\<close>
  | InvalidMapHeader              \<comment> \<open>cbor: invalid map header\<close>
  | InvalidBoolean                \<comment> \<open>cbor: invalid boolean value\<close>
  | InvalidInteger byte           \<comment> \<open>cbor: invalid integer value: b\<close>
  | InvalidString byte            \<comment> \<open>cbor: invalid string value: b\<close>
  | StringTooLarge int            \<comment> \<open>cbor: string too large: n bytes\<close>
  | InvalidMapKey byte            \<comment> \<open>cbor: invalid map key: b\<close>
  | InvalidValue byte             \<comment> \<open>cbor: invalid value: b\<close>
  | UnsupportedType               \<comment> \<open>cbor: unsupported type: T\<close>
  | IntegerOutOfRange             \<comment> \<open>cbor: integer out of range: v\<close>
  | Panic
  | OutsideModel

section \<open>The decoder and its input\<close>

text \<open>
  \<^verbatim>\<open>Decoder\<close> of decoder.go: the reader \<open>r\<close> is the sequence of bytes not yet
  consumed (a \<^verbatim>\<open>bytes.Reader\<close> or \<^verbatim>\<open>bytes.Buffer\<close>), the four limits are Go
  \<^verbatim>\<open>int\<close>s. Go's \<^verbatim>\<open>int\<close> and \<^verbatim>\<open>uint\<close> are taken to be 64 bits wide.
\<close>

record Decoder =
  r :: "byte list"
  maxArrayElements :: int
  maxMapPairs :: int
  maxStringBytes :: int
  maxBytes :: int

definition DefaultMaxValue :: int where
  "DefaultMaxValue = 1000000"

definition NewDecoder :: "byte list \<Rightarrow> Decoder" where
  "NewDecoder input =
     \<lparr>r = input, maxArrayElements = DefaultMaxValue, maxMapPairs = DefaultMaxValue,
      maxStringBytes = DefaultMaxValue, maxBytes = DefaultMaxValue\<rparr>"

definition SetMax :: "Decoder \<Rightarrow> int \<Rightarrow> Decoder" where
  "SetMax dec n =
     dec\<lparr>maxArrayElements := n, maxMapPairs := n, maxStringBytes := n, maxBytes := n\<rparr>"

definition SetMaxArrayElements :: "Decoder \<Rightarrow> int \<Rightarrow> Decoder" where
  "SetMaxArrayElements dec n = dec\<lparr>maxArrayElements := n\<rparr>"

definition SetMaxMapPairs :: "Decoder \<Rightarrow> int \<Rightarrow> Decoder" where
  "SetMaxMapPairs dec n = dec\<lparr>maxMapPairs := n\<rparr>"

definition SetMaxStringBytes :: "Decoder \<Rightarrow> int \<Rightarrow> Decoder" where
  "SetMaxStringBytes dec n = dec\<lparr>maxStringBytes := n\<rparr>"

definition SetMaxBytes :: "Decoder \<Rightarrow> int \<Rightarrow> Decoder" where
  "SetMaxBytes dec n = dec\<lparr>maxBytes := n\<rparr>"

text \<open>
  A method of the decoder returns its Go result, or the error, together with the decoder
  after the call: the cursor moves also when the call fails. \<open>andThen\<close> is the
  \<^verbatim>\<open>x, err := f(); if err != nil { return err }\<close> of the source.
\<close>

type_synonym 'a result = "(error + 'a) \<times> Decoder"

definition andThen :: "'a result \<Rightarrow> ('a \<Rightarrow> Decoder \<Rightarrow> 'b result) \<Rightarrow> 'b result" where
  "andThen m f = (case m of (Inl e, d) \<Rightarrow> (Inl e, d) | (Inr x, d) \<Rightarrow> f x d)"

lemma andThen_Inl [simp]: "andThen (Inl e, d) f = (Inl e, d)"
  by (simp add: andThen_def)

lemma andThen_Inr [simp]: "andThen (Inr x, d) f = f x d"
  by (simp add: andThen_def)

lemma andThen_cong [fundef_cong]:
  "m = m' \<Longrightarrow> (\<And>x d. m' = (Inr x, d) \<Longrightarrow> f x d = f' x d) \<Longrightarrow> andThen m f = andThen m' f'"
  by (auto simp: andThen_def split: prod.splits sum.splits)

text \<open>
  \<^verbatim>\<open>io.ReadFull(dec.r, buf)\<close> with \<^verbatim>\<open>len(buf) = n\<close>: no read at all for an empty
  buffer, \<^verbatim>\<open>io.EOF\<close> when nothing is left, \<^verbatim>\<open>io.ErrUnexpectedEOF\<close> (the rest of the
  input consumed) when fewer than n bytes are left.
\<close>

definition ReadFull :: "Decoder \<Rightarrow> nat \<Rightarrow> (byte list) result" where
  "ReadFull dec n =
     (if n = 0 then (Inr [], dec)
      else if r dec = [] then (Inl EOF, dec)
      else if length (r dec) < n then (Inl ErrUnexpectedEOF, dec\<lparr>r := []\<rparr>)
      else (Inr (take n (r dec)), dec\<lparr>r := drop n (r dec)\<rparr>))"

definition readByte :: "Decoder \<Rightarrow> byte result" where
  "readByte dec = andThen (ReadFull dec 1) (\<lambda>b dec. (Inr (b ! 0), dec))"

definition readHeader :: "Decoder \<Rightarrow> (byte \<times> byte) result" where
  "readHeader dec = andThen (readByte dec) (\<lambda>b dec. (Inr (drop_bit 5 b, b AND 0x1f), dec))"

definition readUint8 :: "Decoder \<Rightarrow> (64 word) result" where
  "readUint8 dec = andThen (readByte dec) (\<lambda>b dec. (Inr (ucast b), dec))"

definition readUint16 :: "Decoder \<Rightarrow> (64 word) result" where
  "readUint16 dec = andThen (ReadFull dec 2) (\<lambda>buf dec.
     (Inr (push_bit 8 (ucast (buf ! 0)) OR ucast (buf ! 1)), dec))"

definition readUint32 :: "Decoder \<Rightarrow> (64 word) result" where
  "readUint32 dec = andThen (ReadFull dec 4) (\<lambda>buf dec.
     (Inr (push_bit 24 (ucast (buf ! 0)) OR push_bit 16 (ucast (buf ! 1))
           OR push_bit 8 (ucast (buf ! 2)) OR ucast (buf ! 3)), dec))"

definition readUint64 :: "Decoder \<Rightarrow> (64 word) result" where
  "readUint64 dec = andThen (ReadFull dec 8) (\<lambda>buf dec.
     (Inr (push_bit 56 (ucast (buf ! 0)) OR push_bit 48 (ucast (buf ! 1))
           OR push_bit 40 (ucast (buf ! 2)) OR push_bit 32 (ucast (buf ! 3))
           OR push_bit 24 (ucast (buf ! 4)) OR push_bit 16 (ucast (buf ! 5))
           OR push_bit 8 (ucast (buf ! 6)) OR ucast (buf ! 7)), dec))"

text \<open>
  The switch on the additional information that opens \<^verbatim>\<open>decodeUint\<close>,
  \<^verbatim>\<open>decodeBytes\<close>, \<^verbatim>\<open>decodeString\<close>, \<^verbatim>\<open>decodeArray\<close>, \<^verbatim>\<open>decodeMap\<close> and
  \<^verbatim>\<open>decodeTag\<close>, the same text in each of them: 24 to 27 read a 1, 2, 4 or 8 byte
  big-endian argument, every other value of \<open>ai\<close> is the argument itself.
\<close>

definition readArgument :: "Decoder \<Rightarrow> byte \<Rightarrow> (64 word) result" where
  "readArgument dec ai =
     (if ai = 24 then readUint8 dec
      else if ai = 25 then readUint16 dec
      else if ai = 26 then readUint32 dec
      else if ai = 27 then readUint64 dec
      else (Inr (ucast ai), dec))"

section \<open>Floating point\<close>

text \<open>
  A \<^verbatim>\<open>float64\<close> is kept as its IEEE-754 binary64 bit pattern, a \<^verbatim>\<open>float32\<close> as its
  binary32 bit pattern, so \<^verbatim>\<open>math.Float64frombits\<close>, \<^verbatim>\<open>math.Float32frombits\<close> and
  \<^verbatim>\<open>math.Float64bits\<close> are the identity. The three conversions the code uses are
  Go's own: \<^verbatim>\<open>float64(f32)\<close> is exact, \<^verbatim>\<open>float32(f64)\<close> rounds to nearest, ties to
  even, and \<^verbatim>\<open>float64(b)\<close> of a byte is exact. A NaN keeps its sign and the leading
  bits of its payload and becomes quiet, as the conversion instructions of amd64 and
  arm64 do.
\<close>

function bit_length :: "int \<Rightarrow> nat" where
  "bit_length n = (if n \<le> 0 then 0 else Suc (bit_length (n div 2)))"
  by pat_completeness auto
termination
  by (relation "measure nat") auto

declare bit_length.simps [simp del]

definition float64_of_float32 :: "32 word \<Rightarrow> 64 word" where
  "float64_of_float32 b =
     (let s = push_bit 63 (ucast (drop_bit 31 b)) :: 64 word;
          e = uint (drop_bit 23 b AND 0xFF);
          m = uint (b AND 0x7FFFFF)
      in if e = 255 then
           s OR 0x7FF0000000000000
             OR (if m = 0 then 0 else 0x0008000000000000 OR push_bit 29 (word_of_int m))
         else if e = 0 then
           (if m = 0 then s
            else let p = bit_length m - 1
                 in s OR push_bit 52 (word_of_int (int p + 874))
                      OR push_bit (52 - p) (word_of_int (m - 2 ^ p)))
         else s OR push_bit 52 (word_of_int (e + 896)) OR push_bit 29 (word_of_int m))"

definition float32_of_float64 :: "64 word \<Rightarrow> 32 word" where
  "float32_of_float64 b =
     (let s = push_bit 31 (ucast (drop_bit 63 b)) :: 32 word;
          e = uint (drop_bit 52 b AND 0x7FF);
          m = uint (b AND 0xFFFFFFFFFFFFF)
      in if e = 2047 then
           (if m = 0 then s OR 0x7F800000
            else s OR 0x7FC00000 OR word_of_int (m div 2 ^ 29))
         else if e = 0 then s
         else let sig = 2 ^ 52 + m;
                  shift = (if 897 \<le> e then 29 else nat (926 - e));
                  base = (if 897 \<le> e then e - 897 else 0);
                  q = sig div 2 ^ shift;
                  rem = sig mod 2 ^ shift;
                  half = 2 ^ (shift - 1);
                  q' = (if half < rem \<or> (rem = half \<and> odd q) then q + 1 else q);
                  bits = base * 2 ^ 23 + q'
              in if 0x7F800000 \<le> bits then s OR 0x7F800000 else s OR word_of_int bits)"

definition float64_of_byte :: "byte \<Rightarrow> 64 word" where
  "float64_of_byte b =
     (let n = uint b
      in if n = 0 then 0
         else let p = bit_length n - 1
              in push_bit 52 (word_of_int (1023 + int p))
                   OR push_bit (52 - p) (word_of_int (n - 2 ^ p)))"

section \<open>Go types and values, as \<^verbatim>\<open>reflect\<close> sees them\<close>

text \<open>
  The destination of \<^verbatim>\<open>Decode\<close> and the argument of \<^verbatim>\<open>Encode\<close> are inspected through
  \<^verbatim>\<open>reflect\<close>: a \<^verbatim>\<open>reflect.Value\<close> is a type together with a value of that type.
  \<open>gotype\<close> covers the kinds the two files switch on. A struct field is its name, whether
  it is exported (\<^verbatim>\<open>PkgPath == ""\<close>), its tag and its type. The tag is kept as what the
  code asks of it: empty (\<open>NoTag\<close>), non-empty without a \<^verbatim>\<open>cbor\<close> key (\<open>OtherTag\<close>), or
  the value of the \<^verbatim>\<open>cbor\<close> key. Named types, embedded fields, recursive types,
  non-empty interfaces, channels, functions and complex numbers are outside the model.
\<close>

datatype ikind = KInt | KInt8 | KInt16 | KInt32 | KInt64
datatype ukind = KUint | KUint8 | KUint16 | KUint32 | KUint64 | KUintptr
datatype ftag = NoTag | OtherTag | CborTag gostring

datatype gotype =
    TBool
  | TInt ikind
  | TUint ukind
  | TFloat32
  | TFloat64
  | TString
  | TSlice gotype
  | TArray nat gotype
  | TMap gotype gotype
  | TPtr gotype
  | TInterface
  | TStruct "(gostring \<times> bool \<times> ftag \<times> gotype) list"

text \<open>
  Values. A slice and a map can be nil (\<open>None\<close>); a map is the list of its entries in
  iteration order; a pointer owns what it points to (no two pointers of a destination
  alias); a struct is the list of its field values. An \<^verbatim>\<open>interface{}\<close> is nil, or
  holds a typed value, or one of two values of library types the decoder stores there:
  the decoder's own \<^verbatim>\<open>io.Reader\<close>, and a \<^verbatim>\<open>*big.Int\<close>.
\<close>

datatype goval =
    VBool bool
  | VInt int
  | VUint int
  | VFloat32 "32 word"
  | VFloat64 "64 word"
  | VString gostring
  | VSlice "goval list option"
  | VArray "goval list"
  | VMap "(goval \<times> goval) list option"
  | VPtr "goval option"
  | VStruct "goval list"
  | VInterface iface
and iface =
    INil
  | IVal gotype goval
  | IReader
  | IBigInt int

definition fieldName :: "gostring \<times> bool \<times> ftag \<times> gotype \<Rightarrow> gostring" where
  "fieldName f = fst f"

definition fieldExported :: "gostring \<times> bool \<times> ftag \<times> gotype \<Rightarrow> bool" where
  "fieldExported f = fst (snd f)"

definition fieldTag :: "gostring \<times> bool \<times> ftag \<times> gotype \<Rightarrow> ftag" where
  "fieldTag f = fst (snd (snd f))"

definition fieldType :: "gostring \<times> bool \<times> ftag \<times> gotype \<Rightarrow> gotype" where
  "fieldType f = snd (snd (snd f))"

lemma size_fieldType [termination_simp]:
  "f \<in> set fs \<Longrightarrow>
     size (fieldType f) < size_list (\<lambda>x. Suc (Suc (Suc (size (snd (snd (snd x))))))) fs"
  by (induction fs) (auto simp: fieldType_def)

text \<open>\<^verbatim>\<open>reflect.Zero(t)\<close>, the zero value of a type.\<close>

fun Zero :: "gotype \<Rightarrow> goval" where
  "Zero TBool = VBool False"
| "Zero (TInt k) = VInt 0"
| "Zero (TUint k) = VUint 0"
| "Zero TFloat32 = VFloat32 0"
| "Zero TFloat64 = VFloat64 0"
| "Zero TString = VString []"
| "Zero (TSlice t) = VSlice None"
| "Zero (TArray n t) = VArray (replicate n (Zero t))"
| "Zero (TMap k v) = VMap None"
| "Zero (TPtr t) = VPtr None"
| "Zero TInterface = VInterface INil"
| "Zero (TStruct fs) = VStruct (map (\<lambda>f. Zero (fieldType f)) fs)"

text \<open>
  \<^verbatim>\<open>rv.SetInt(x)\<close> and \<^verbatim>\<open>rv.SetUint(x)\<close> store \<open>x\<close> converted to the kind of
  \<open>rv\<close>: they truncate, they do not check for overflow.
\<close>

definition SetInt :: "ikind \<Rightarrow> int \<Rightarrow> goval" where
  "SetInt k x =
     VInt (case k of
             KInt \<Rightarrow> sint (word_of_int x :: 64 word)
           | KInt8 \<Rightarrow> sint (word_of_int x :: 8 word)
           | KInt16 \<Rightarrow> sint (word_of_int x :: 16 word)
           | KInt32 \<Rightarrow> sint (word_of_int x :: 32 word)
           | KInt64 \<Rightarrow> sint (word_of_int x :: 64 word))"

definition SetUint :: "ukind \<Rightarrow> 64 word \<Rightarrow> goval" where
  "SetUint k x =
     VUint (case k of
              KUint \<Rightarrow> uint x
            | KUint8 \<Rightarrow> uint (ucast x :: 8 word)
            | KUint16 \<Rightarrow> uint (ucast x :: 16 word)
            | KUint32 \<Rightarrow> uint (ucast x :: 32 word)
            | KUint64 \<Rightarrow> uint x
            | KUintptr \<Rightarrow> uint x)"

text \<open>
  A \<^verbatim>\<open>Set\<close> on a value reached through an unexported struct field panics; \<open>ro\<close> is
  that flag of the \<^verbatim>\<open>reflect.Value\<close>.
\<close>

definition setValue :: "bool \<Rightarrow> goval \<Rightarrow> Decoder \<Rightarrow> goval result" where
  "setValue ro v dec = (if ro then (Inl Panic, dec) else (Inr v, dec))"

text \<open>\<^verbatim>\<open>rv.Elem()\<close> of a pointer or an interface; a panic for every other kind, and a
  panic at the first use of the invalid value it returns for nil.\<close>

definition Elem :: "goval \<Rightarrow> error + goval" where
  "Elem v = (case v of
               VPtr (Some x) \<Rightarrow> Inr x
             | VInterface (IVal t x) \<Rightarrow> Inr x
             | _ \<Rightarrow> Inl Panic)"

text \<open>
  \<^verbatim>\<open>if rv.IsNil() { rv.Set(reflect.New(rv.Type().Elem())) }; rv = rv.Elem()\<close> for a
  pointer \<open>v\<close> to a \<open>t\<close>.
\<close>

definition allocElem :: "bool \<Rightarrow> gotype \<Rightarrow> goval \<Rightarrow> error + goval" where
  "allocElem ro t v =
     (case v of
        VPtr None \<Rightarrow> (if ro then Inl Panic else Inr (Zero t))
      | VPtr (Some x) \<Rightarrow> Inr x
      | _ \<Rightarrow> Inl Panic)"

text \<open>\<^verbatim>\<open>fmt.Errorf\<close> around an error; a panic is not an error and is not wrapped, and
  neither is \<open>OutsideModel\<close>.\<close>

definition wrapError :: "(error \<Rightarrow> error) \<Rightarrow> error \<Rightarrow> error" where
  "wrapError f e = (if e = Panic \<or> e = OutsideModel then e else f e)"

definition isPtr :: "gotype \<Rightarrow> bool" where
  "isPtr t = (case t of TPtr _ \<Rightarrow> True | _ \<Rightarrow> False)"

section \<open>The readers of the nested path\<close>

text \<open>
  \<^verbatim>\<open>decode\<close> and what it calls do not go through \<^verbatim>\<open>readHeader\<close>: each of the
  functions below reads one byte and compares it, whole, with the head bytes it knows.
  \<^verbatim>\<open>int(n)\<close> of a \<^verbatim>\<open>uint64\<close> is its two's complement reading.
\<close>

definition readInt :: "Decoder \<Rightarrow> int result" where
  "readInt dec = andThen (readByte dec) (\<lambda>b dec.
     if b = 0x1A then andThen (readUint32 dec) (\<lambda>n dec. (Inr (sint n), dec))
     else if b = 0x1B then andThen (readUint64 dec) (\<lambda>n dec. (Inr (sint n), dec))
     else if b \<le> 0x17 then (Inr (uint b), dec)
     else if 0x18 \<le> b \<and> b \<le> 0x1f then (Inr (uint (b AND 0x1f)), dec)
     else if b = 0x20 then andThen (readUint64 dec) (\<lambda>n dec. (Inr (sint n), dec))
     else if b = 0x21 then andThen (readUint32 dec) (\<lambda>n dec. (Inr (sint n), dec))
     else if b = 0x22 then andThen (readUint64 dec) (\<lambda>n dec. (Inr (sint n), dec))
     else (Inl (InvalidInteger b), dec))"

definition readUint :: "Decoder \<Rightarrow> (64 word) result" where
  "readUint dec = andThen (readByte dec) (\<lambda>b dec.
     if b \<le> 0x17 then (Inr (ucast b), dec)
     else if 0x18 \<le> b \<and> b \<le> 0x1f then (Inr (ucast (b AND 0x1f)), dec)
     else if b = 0x20 then readUint16 dec
     else if b = 0x21 then readUint32 dec
     else if b = 0x22 then readUint64 dec
     else (Inr (ucast b), dec))"

definition readArrayHeader :: "Decoder \<Rightarrow> int result" where
  "readArrayHeader dec = andThen (readByte dec) (\<lambda>b dec.
     if 0x80 \<le> b \<and> b \<le> 0x8f then (Inr (uint (b AND 0x0f)), dec)
     else if b = 0x9f then readInt dec
     else if 0x40 \<le> b \<and> b \<le> 0x5f then (Inr (uint (b AND 0x1f)), dec)
     else (Inl (InvalidArrayHeader b), dec))"

definition readMapHeader :: "Decoder \<Rightarrow> int result" where
  "readMapHeader dec = andThen (readByte dec) (\<lambda>b dec.
     if 0xa0 \<le> b \<and> b \<le> 0xaf then (Inr (uint (b AND 0x0f)), dec)
     else if b = 0xbf then readInt dec
     else (Inl InvalidMapHeader, dec))"

definition readBool :: "Decoder \<Rightarrow> bool result" where
  "readBool dec = andThen (readByte dec) (\<lambda>b dec.
     if b = 0xf4 then (Inr False, dec)
     else if b = 0xf5 then (Inr True, dec)
     else (Inl InvalidBoolean, dec))"

text \<open>The three float readers return a \<^verbatim>\<open>float64\<close>. \<^verbatim>\<open>readFloat16\<close> reads the two
  bytes as the low bits of a binary32 pattern.\<close>

definition readFloat16 :: "Decoder \<Rightarrow> (64 word) result" where
  "readFloat16 dec = andThen (readUint16 dec) (\<lambda>b dec.
     (Inr (float64_of_float32 (ucast b)), dec))"

definition readFloat32 :: "Decoder \<Rightarrow> (64 word) result" where
  "readFloat32 dec = andThen (readUint32 dec) (\<lambda>b dec.
     (Inr (float64_of_float32 (ucast b)), dec))"

definition readFloat64 :: "Decoder \<Rightarrow> (64 word) result" where
  "readFloat64 dec = andThen (readUint64 dec) (\<lambda>b dec. (Inr b, dec))"

definition readFloat :: "Decoder \<Rightarrow> (64 word) result" where
  "readFloat dec = andThen (readByte dec) (\<lambda>b dec.
     if b = 0xf9 then readFloat16 dec
     else if b = 0xfa then readFloat32 dec
     else if b = 0xfb then readFloat64 dec
     else (Inr (float64_of_byte b), dec))"

text \<open>
  \<^verbatim>\<open>readStringBytes(n)\<close>: \<^verbatim>\<open>make([]byte, n)\<close> panics for a negative \<open>n\<close>, which
  \<^verbatim>\<open>readInt\<close> can return. The memory of the model is unbounded: a \<^verbatim>\<open>make\<close> of a
  non-negative length always succeeds.
\<close>

definition readStringBytes :: "Decoder \<Rightarrow> int \<Rightarrow> gostring result" where
  "readStringBytes dec n =
     (if n = 0 then (Inr [], dec)
      else if maxStringBytes dec < n then (Inl (StringTooLarge n), dec)
      else if n < 0 then (Inl Panic, dec)
      else ReadFull dec (nat n))"

definition readString :: "Decoder \<Rightarrow> gostring result" where
  "readString dec = andThen (readByte dec) (\<lambda>b dec.
     if 0x60 \<le> b \<and> b \<le> 0x77 then readStringBytes dec (uint (b AND 0x1f))
     else if 0x78 \<le> b \<and> b \<le> 0x7f then
       andThen (readInt dec) (\<lambda>n dec. readStringBytes dec n)
     else if b = 0xf6 then (Inr [], dec)
     else (Inl (InvalidString b), dec))"

text \<open>
  \<^verbatim>\<open>readMapKey\<close> and \<^verbatim>\<open>readValue\<close> return an \<^verbatim>\<open>any\<close>. \<open>anyval\<close> has one
  constructor for each dynamic type they return: \<^verbatim>\<open>int\<close>, \<^verbatim>\<open>string\<close>,
  \<^verbatim>\<open>[]byte{}\<close>, \<^verbatim>\<open>[]any{}\<close>, \<^verbatim>\<open>map[any]any{}\<close>, \<^verbatim>\<open>nil\<close> and \<^verbatim>\<open>false\<close>.
  The cases of the source that an earlier case shadows (\<^verbatim>\<open>b == 0x7f\<close>, \<^verbatim>\<open>b == 0x3f\<close>,
  the second group of string heads) are left out.
\<close>

datatype anyval =
    AInt int
  | AString gostring
  | ABytes gostring
  | AArray
  | AMap
  | ANil
  | ABool bool

definition readMapKey :: "Decoder \<Rightarrow> anyval result" where
  "readMapKey dec = andThen (readByte dec) (\<lambda>b dec.
     if b \<le> 0x17 then (Inr (AInt (uint b)), dec)
     else if 0x18 \<le> b \<and> b \<le> 0x1f then (Inr (AInt (uint (b AND 0x1f))), dec)
     else if b = 0x20 then andThen (readUint16 dec) (\<lambda>n dec. (Inr (AInt (sint n)), dec))
     else if b = 0x21 then andThen (readUint32 dec) (\<lambda>n dec. (Inr (AInt (sint n)), dec))
     else if b = 0x22 then andThen (readUint64 dec) (\<lambda>n dec. (Inr (AInt (sint n)), dec))
     else if 0x30 \<le> b \<and> b \<le> 0x37 then
       andThen (readStringBytes dec (uint (b AND 0x1f))) (\<lambda>s dec. (Inr (AString s), dec))
     else if 0x38 \<le> b \<and> b \<le> 0x3f then
       andThen (readStringBytes dec (uint (b AND 0x1f))) (\<lambda>s dec. (Inr (AString s), dec))
     else if b = 0x7f then
       andThen (readInt dec) (\<lambda>n dec.
         andThen (readStringBytes dec n) (\<lambda>s dec. (Inr (AString s), dec)))
     else if b = 0xf6 then (Inr (AString []), dec)
     else if b = 0xf7 then (Inr (ABytes []), dec)
     else if b = 0xf8 then (Inr AArray, dec)
     else if b = 0xf9 then (Inr AMap, dec)
     else if b = 0xfa then (Inr ANil, dec)
     else if b = 0xfb then (Inr ANil, dec)
     else if b = 0xff then (Inr ANil, dec)
     else if b = 0x40 then (Inr (ABool False), dec)
     else if 0x60 \<le> b \<and> b \<le> 0x77 then
       andThen (readStringBytes dec (uint (b AND 0x1f))) (\<lambda>s dec. (Inr (AString s), dec))
     else if 0x78 \<le> b \<and> b \<le> 0x7f then
       andThen (readInt dec) (\<lambda>n dec.
         andThen (readStringBytes dec n) (\<lambda>s dec. (Inr (AString s), dec)))
     else (Inl (InvalidMapKey b), dec))"

definition readValue :: "Decoder \<Rightarrow> anyval result" where
  "readValue dec = andThen (readByte dec) (\<lambda>b dec.
     if b \<le> 0x17 then (Inr (AInt (uint b)), dec)
     else if 0x18 \<le> b \<and> b \<le> 0x1f then (Inr (AInt (uint (b AND 0x1f))), dec)
     else if b = 0x20 then andThen (readUint16 dec) (\<lambda>n dec. (Inr (AInt (sint n)), dec))
     else if b = 0x21 then andThen (readUint32 dec) (\<lambda>n dec. (Inr (AInt (sint n)), dec))
     else if b = 0x22 then andThen (readUint64 dec) (\<lambda>n dec. (Inr (AInt (sint n)), dec))
     else if 0x30 \<le> b \<and> b \<le> 0x37 then
       andThen (readStringBytes dec (uint (b AND 0x1f))) (\<lambda>s dec. (Inr (AString s), dec))
     else if 0x38 \<le> b \<and> b \<le> 0x3f then
       andThen (readStringBytes dec (uint (b AND 0x1f))) (\<lambda>s dec. (Inr (AString s), dec))
     else (Inl (InvalidValue b), dec))"

text \<open>\<^verbatim>\<open>strconv.Itoa\<close>, and \<^verbatim>\<open>toString\<close> on the values \<^verbatim>\<open>readMapKey\<close> returns: the
  \<^verbatim>\<open>default\<close> case prints the empty slice and the empty map with \<^verbatim>\<open>%v\<close>.\<close>

fun digits :: "nat \<Rightarrow> gostring" where
  "digits n = (if n < 10 then [of_nat (48 + n)]
               else digits (n div 10) @ [of_nat (48 + n mod 10)])"

declare digits.simps [simp del]

definition Itoa :: "int \<Rightarrow> gostring" where
  "Itoa i = (if i < 0 then 0x2D # digits (nat (- i)) else digits (nat i))"

definition toString :: "anyval \<Rightarrow> gostring" where
  "toString v =
     (case v of
        AString s \<Rightarrow> s
      | ABytes s \<Rightarrow> s
      | AInt i \<Rightarrow> Itoa i
      | ABool b \<Rightarrow> (if b then bytes_of ''true'' else bytes_of ''false'')
      | ANil \<Rightarrow> bytes_of ''null''
      | AArray \<Rightarrow> bytes_of ''[]''
      | AMap \<Rightarrow> bytes_of ''map[]'')"

text \<open>
  \<^verbatim>\<open>decodeBasic(rv)\<close> for a value of type \<open>t\<close>: the value read, stored in \<open>rv\<close>.
  The only interface type of the model has no method, and what is stored in it is the
  decoder's reader: no byte is consumed.
\<close>

definition decodeBasic :: "Decoder \<Rightarrow> bool \<Rightarrow> gotype \<Rightarrow> goval result" where
  "decodeBasic dec ro t =
     (case t of
        TBool \<Rightarrow> andThen (readBool dec) (\<lambda>b dec. setValue ro (VBool b) dec)
      | TInt k \<Rightarrow> andThen (readInt dec) (\<lambda>n dec. setValue ro (SetInt k n) dec)
      | TUint k \<Rightarrow>
          (if k = KUintptr then (Inl CannotUnmarshalInto, dec)
           else andThen (readUint dec) (\<lambda>n dec. setValue ro (SetUint k n) dec))
      | TFloat32 \<Rightarrow>
          andThen (readFloat dec) (\<lambda>f dec. setValue ro (VFloat32 (float32_of_float64 f)) dec)
      | TFloat64 \<Rightarrow> andThen (readFloat dec) (\<lambda>f dec. setValue ro (VFloat64 f) dec)
      | TString \<Rightarrow> andThen (readString dec) (\<lambda>s dec. setValue ro (VString s) dec)
      | TInterface \<Rightarrow> setValue ro (VInterface IReader) dec
      | _ \<Rightarrow> (Inl CannotUnmarshalInto, dec))"

section \<open>Struct fields and map entries\<close>

text \<open>
  \<^verbatim>\<open>strings.EqualFold(s, t)\<close>. The library compares the two strings byte by byte as
  long as both bytes are ASCII: equal bytes, or an upper-case letter and its lower-case
  letter, go on, any other pair is \<^verbatim>\<open>false\<close>, and when one string ends the answer is
  whether both have ended. At the first pair with a byte outside ASCII it goes over to
  the runes and the case-folding tables of the package \<^verbatim>\<open>unicode\<close>; the model has
  no such tables and answers \<open>None\<close> there.
\<close>

fun EqualFold :: "gostring \<Rightarrow> gostring \<Rightarrow> bool option" where
  "EqualFold [] t = Some (t = [])"
| "EqualFold (sr # s) [] = Some False"
| "EqualFold (sr # s) (tr # t) =
     (if 0x80 \<le> (sr OR tr) then None
      else if tr = sr then EqualFold s t
      else if 0x41 \<le> min sr tr \<and> min sr tr \<le> 0x5A \<and> max sr tr = min sr tr + 0x20
        then EqualFold s t
      else Some False)"

text \<open>
  \<^verbatim>\<open>rv.FieldByNameFunc(func(name) { return strings.EqualFold(name, key) })\<close> on a
  struct without embedded fields: the fields are tried in order, a second match ends the
  search with no field, and so does the end of the list when nothing has matched.
  \<open>fieldScan\<close> is the loop, with the index of the field and the match found so far.
\<close>

fun fieldScan ::
  "(gostring \<times> bool \<times> ftag \<times> gotype) list \<Rightarrow> gostring \<Rightarrow> nat \<Rightarrow> nat option
     \<Rightarrow> error + nat option" where
  "fieldScan [] key i found = Inr found"
| "fieldScan (f # fs) key i found =
     (case EqualFold (fieldName f) key of
        None \<Rightarrow> Inl OutsideModel
      | Some m \<Rightarrow>
          (if m then
             (case found of
                Some j \<Rightarrow> Inr None
              | None \<Rightarrow> fieldScan fs key (Suc i) (Some i))
           else fieldScan fs key (Suc i) found))"

definition FieldByNameFunc ::
  "(gostring \<times> bool \<times> ftag \<times> gotype) list \<Rightarrow> gostring \<Rightarrow> error + nat option" where
  "FieldByNameFunc fs key = fieldScan fs key 0 None"

text \<open>\<^verbatim>\<open>strings.Index(s, sub)\<close>, with \<open>None\<close> for -1.\<close>

fun stringsIndex :: "gostring \<Rightarrow> gostring \<Rightarrow> nat option" where
  "stringsIndex [] sub = (if sub = [] then Some 0 else None)"
| "stringsIndex (c # s) sub =
     (if take (length sub) (c # s) = sub then Some 0
      else map_option Suc (stringsIndex s sub))"

text \<open>
  The field cache that the struct case of \<^verbatim>\<open>decodeMap\<close> builds: for each exported
  field the key it answers to, a later field replacing an earlier one with the same key.
\<close>

definition cacheKey :: "gostring \<times> bool \<times> ftag \<times> gotype \<Rightarrow> gostring option" where
  "cacheKey f =
     (if fieldExported f then
        (case fieldTag f of
           NoTag \<Rightarrow> Some (fieldName f)
         | OtherTag \<Rightarrow> None
         | CborTag tag \<Rightarrow>
             (case stringsIndex tag (bytes_of '',keyasint'') of
                Some idx \<Rightarrow> Some (take idx tag)
              | None \<Rightarrow> Some tag))
      else None)"

fun fieldCacheFrom ::
  "(gostring \<times> bool \<times> ftag \<times> gotype) list \<Rightarrow> nat \<Rightarrow> (gostring \<rightharpoonup> nat) \<Rightarrow> (gostring \<rightharpoonup> nat)" where
  "fieldCacheFrom [] i c = c"
| "fieldCacheFrom (f # fs) i c =
     fieldCacheFrom fs (Suc i) (case cacheKey f of None \<Rightarrow> c | Some k \<Rightarrow> c(k \<mapsto> i))"

definition fieldCache :: "(gostring \<times> bool \<times> ftag \<times> gotype) list \<Rightarrow> (gostring \<rightharpoonup> nat)" where
  "fieldCache fs = fieldCacheFrom fs 0 Map.empty"

text \<open>
  Equality of map keys. Two floats are equal when neither is a NaN and they have the
  same bits or are both zeros, also when an \<^verbatim>\<open>interface{}\<close> key holds them. A pointer
  key the decoder has just allocated equals no other key.
\<close>

definition float32Eq :: "32 word \<Rightarrow> 32 word \<Rightarrow> bool" where
  "float32Eq a b =
     (if 0x7F800000 < (a AND 0x7FFFFFFF) then False
      else if 0x7F800000 < (b AND 0x7FFFFFFF) then False
      else if a = b then True
      else (a AND 0x7FFFFFFF) = 0 \<and> (b AND 0x7FFFFFFF) = 0)"

definition float64Eq :: "64 word \<Rightarrow> 64 word \<Rightarrow> bool" where
  "float64Eq a b =
     (if 0x7FF0000000000000 < (a AND 0x7FFFFFFFFFFFFFFF) then False
      else if 0x7FF0000000000000 < (b AND 0x7FFFFFFFFFFFFFFF) then False
      else if a = b then True
      else (a AND 0x7FFFFFFFFFFFFFFF) = 0 \<and> (b AND 0x7FFFFFFFFFFFFFFF) = 0)"

definition keyEq :: "gotype \<Rightarrow> goval \<Rightarrow> goval \<Rightarrow> bool" where
  "keyEq kt a b =
     (case kt of
        TPtr _ \<Rightarrow> False
      | TFloat32 \<Rightarrow> (case (a, b) of (VFloat32 x, VFloat32 y) \<Rightarrow> float32Eq x y | _ \<Rightarrow> False)
      | TFloat64 \<Rightarrow> (case (a, b) of (VFloat64 x, VFloat64 y) \<Rightarrow> float64Eq x y | _ \<Rightarrow> False)
      | TInterface \<Rightarrow>
          (case (a, b) of
             (VInterface (IVal ta (VFloat32 x)), VInterface (IVal tb (VFloat32 y))) \<Rightarrow>
               ta = tb \<and> float32Eq x y
           | (VInterface (IVal ta (VFloat64 x)), VInterface (IVal tb (VFloat64 y))) \<Rightarrow>
               ta = tb \<and> float64Eq x y
           | _ \<Rightarrow> a = b)
      | _ \<Rightarrow> a = b)"

text \<open>
  \<^verbatim>\<open>rv.SetMapIndex(key, val)\<close> on the entries of a map with keys of type \<open>kt\<close>. The
  assignment to a key that is present stores the new key with the new value (for a float
  key the two can differ: \<open>+0\<close> and \<open>-0\<close>).
\<close>

fun SetMapIndex ::
  "gotype \<Rightarrow> (goval \<times> goval) list \<Rightarrow> goval \<Rightarrow> goval \<Rightarrow> (goval \<times> goval) list" where
  "SetMapIndex kt [] k v = [(k, v)]"
| "SetMapIndex kt (e # m) k v =
     (if keyEq kt (fst e) k then (k, v) # m else e # SetMapIndex kt m k v)"

text \<open>
  The map case of \<^verbatim>\<open>decodeMap\<close> has a switch on the kind of the key type and a switch
  on the kind of the element type. \<open>newKey\<close> and \<open>newVal\<close> are the
  \<^verbatim>\<open>reflect.Value\<close> each case creates and hands to \<^verbatim>\<open>decode\<close>; \<open>storeEntry\<close> is
  what the case of the element switch does after \<^verbatim>\<open>decode\<close> has returned: the
  \<^verbatim>\<open>Elem\<close> and \<^verbatim>\<open>Convert\<close> calls, then \<^verbatim>\<open>SetMapIndex\<close>.
\<close>

definition newKey :: "gotype \<Rightarrow> error + gotype \<times> goval" where
  "newKey kt =
     (case kt of
        TString \<Rightarrow> Inr (TPtr kt, VPtr (Some (Zero kt)))
      | TInterface \<Rightarrow> Inr (kt, Zero kt)
      | TInt k \<Rightarrow> Inr (TPtr kt, VPtr (Some (Zero kt)))
      | TUint k \<Rightarrow>
          (if k = KUintptr then Inl CannotUnmarshalMapKey
           else Inr (TPtr kt, VPtr (Some (Zero kt))))
      | TFloat32 \<Rightarrow> Inr (TPtr kt, VPtr (Some (Zero kt)))
      | TFloat64 \<Rightarrow> Inr (TPtr kt, VPtr (Some (Zero kt)))
      | TPtr kt1 \<Rightarrow> Inr (TPtr kt1, VPtr (Some (Zero kt1)))
      | _ \<Rightarrow> Inl CannotUnmarshalMapKey)"

definition newVal :: "gotype \<Rightarrow> gotype \<times> goval" where
  "newVal vt =
     (case vt of
        TString \<Rightarrow> (TPtr vt, VPtr (Some (Zero vt)))
      | TInterface \<Rightarrow> (TInterface, VInterface INil)
      | TPtr vt1 \<Rightarrow> (TPtr vt1, VPtr (Some (Zero vt1)))
      | TInt k \<Rightarrow> (TPtr vt, VPtr (Some (Zero vt)))
      | TUint k \<Rightarrow>
          (if k = KUintptr then (vt, Zero vt) else (TPtr vt, VPtr (Some (Zero vt))))
      | TFloat32 \<Rightarrow> (TPtr vt, VPtr (Some (Zero vt)))
      | TFloat64 \<Rightarrow> (TPtr vt, VPtr (Some (Zero vt)))
      | _ \<Rightarrow> (vt, Zero vt))"

definition thenE :: "error + 'a \<Rightarrow> ('a \<Rightarrow> error + 'b) \<Rightarrow> error + 'b" where
  "thenE m f = (case m of Inl e \<Rightarrow> Inl e | Inr x \<Rightarrow> f x)"

definition putEntry ::
  "bool \<Rightarrow> gotype \<Rightarrow> (goval \<times> goval) list \<Rightarrow> goval \<Rightarrow> goval \<Rightarrow> error + (goval \<times> goval) list" where
  "putEntry ro kt m k v = (if ro then Inl Panic else Inr (SetMapIndex kt m k v))"

definition storeEntry ::
  "bool \<Rightarrow> gotype \<Rightarrow> gotype \<Rightarrow> goval \<Rightarrow> goval \<Rightarrow> (goval \<times> goval) list
     \<Rightarrow> error + (goval \<times> goval) list" where
  "storeEntry ro kt vt key val m =
     (let derefKey = (if isPtr kt then Inr key else Elem key);
          derefBoth = thenE derefKey (\<lambda>k. thenE (Elem val) (\<lambda>v. putEntry ro kt m k v))
      in case vt of
           TString \<Rightarrow> derefBoth
         | TInterface \<Rightarrow>
             (if isPtr kt \<or> kt = TInterface then
                (case val of
                   VInterface INil \<Rightarrow>
                     (if ro then Inl Panic else Inr (filter (\<lambda>e. \<not> keyEq kt (fst e) key) m))
                 | _ \<Rightarrow> putEntry ro kt m key val)
              else Inl Panic)
         | TPtr vt1 \<Rightarrow> thenE derefKey (\<lambda>k. putEntry ro kt m k val)
         | TInt k \<Rightarrow>
             (case kt of
                TPtr kt1 \<Rightarrow>
                  (if isPtr kt1 then thenE (Elem val) (\<lambda>v. putEntry ro kt m key v)
                   else Inl Panic)
              | _ \<Rightarrow> derefBoth)
         | TUint k \<Rightarrow>
             (if k = KUintptr then (if isPtr kt then putEntry ro kt m key val else Inl Panic)
              else derefBoth)
         | TFloat32 \<Rightarrow> derefBoth
         | TFloat64 \<Rightarrow> derefBoth
         | _ \<Rightarrow> (if isPtr kt then putEntry ro kt m key val else Inl Panic))"

text \<open>\<^verbatim>\<open>rv.Len()\<close> of a map or a slice.\<close>

definition Len :: "goval \<Rightarrow> nat" where
  "Len v = (case v of
              VMap (Some m) \<Rightarrow> length m
            | VSlice (Some xs) \<Rightarrow> length xs
            | VArray xs \<Rightarrow> length xs
            | VString s \<Rightarrow> length s
            | _ \<Rightarrow> 0)"

text \<open>Facts for the termination of \<^verbatim>\<open>decode\<close>: it descends into the type of its
  destination.\<close>

lemma fieldScan_less:
  "fieldScan fs key i found = Inr (Some j) \<Longrightarrow> found = Some j \<or> (i \<le> j \<and> j < i + length fs)"
proof (induction fs arbitrary: i found)
  case Nil
  then show ?case by simp
next
  case (Cons f fs)
  show ?case
  proof (cases "EqualFold (fieldName f) key")
    case None
    with Cons.prems show ?thesis by simp
  next
    case (Some m)
    show ?thesis
    proof (cases m)
      case False
      with Some Cons.prems have "fieldScan fs key (Suc i) found = Inr (Some j)"
        by simp
      from Cons.IH [OF this] show ?thesis by auto
    next
      case True
      show ?thesis
      proof (cases found)
        case None
        with Some True Cons.prems have "fieldScan fs key (Suc i) (Some i) = Inr (Some j)"
          by simp
        from Cons.IH [OF this] show ?thesis by auto
      next
        case (Some k)
        with \<open>EqualFold (fieldName f) key = Some m\<close> True Cons.prems show ?thesis by simp
      qed
    qed
  qed
qed

lemma FieldByNameFunc_less: "FieldByNameFunc fs key = Inr (Some j) \<Longrightarrow> j < length fs"
  using fieldScan_less [of fs key 0 None j] by (simp add: FieldByNameFunc_def)

lemma fieldCacheFrom_less:
  "fieldCacheFrom fs i c k = Some j \<Longrightarrow> c k = Some j \<or> (i \<le> j \<and> j < i + length fs)"
proof (induction fs arbitrary: i c)
  case Nil
  then show ?case by simp
next
  case (Cons f fs)
  from Cons.IH [OF Cons.prems [simplified]] show ?case
    by (auto split: option.splits if_splits)
qed

lemma fieldCache_less: "fieldCache fs k = Some j \<Longrightarrow> j < length fs"
  using fieldCacheFrom_less [of fs 0 Map.empty k j] by (simp add: fieldCache_def)

lemma size_field_mem:
  "f \<in> set fs \<Longrightarrow> Suc (Suc (size (fieldType f))) \<le> size (TStruct fs)"
  by (induction fs) (auto simp: fieldType_def)

lemma size_field_nth:
  "j < length fs \<Longrightarrow> Suc (Suc (size (fieldType (fs ! j)))) \<le> size (TStruct fs)"
  by (rule size_field_mem) simp

lemma size_newKey: "newKey kt = Inr tk \<Longrightarrow> size (fst tk) \<le> Suc (size kt)"
  by (auto simp: newKey_def split: gotype.splits if_splits)

lemma size_newVal: "size (fst (newVal vt)) \<le> Suc (size vt)"
  by (auto simp: newVal_def split: gotype.splits)

definition decodeMeasure ::
  "((Decoder \<times> bool \<times> gotype \<times> goval + Decoder \<times> bool \<times> gotype \<times> goval) +
       Decoder \<times> bool \<times> (gostring \<times> bool \<times> ftag \<times> gotype) list \<times> goval +
       Decoder \<times> bool \<times> (gostring \<times> bool \<times> ftag \<times> gotype) list \<times> goval list \<times> nat \<times> nat +
       Decoder \<times> bool \<times> gotype) +
      (Decoder \<times> gotype \<times> goval list \<times> nat \<times> nat +
       Decoder \<times> bool \<times> gotype \<times> goval \<times> byte) +
      Decoder \<times> bool \<times> gotype \<times> gotype \<times> (goval \<times> goval) list \<times> nat \<times> nat +
      Decoder \<times> (goval \<times> goval) list \<times> nat \<times> nat +
      Decoder \<times> bool \<times> (gostring \<times> bool \<times> ftag \<times> gotype) list \<times> goval list \<times> nat \<times> nat
      \<Rightarrow> nat \<times> nat" where
  "decodeMeasure x =
     (case x of
        Inl (Inl (Inl (dec, ro, t, v))) \<Rightarrow> (4 * size t, 0::nat)
      | Inl (Inl (Inr (dec, ro, t, v))) \<Rightarrow> (4 * size t + 3, 0)
      | Inl (Inr (Inl (dec, ro, fs, v))) \<Rightarrow> (4 * size (TStruct fs) + 2, 0)
      | Inl (Inr (Inr (Inl (dec, ro, fs, vals, i, n)))) \<Rightarrow> (4 * size (TStruct fs) + 1, n - i)
      | Inl (Inr (Inr (Inr (dec, ro, e)))) \<Rightarrow> (4 * size (TSlice e) + 2, 0)
      | Inr (Inl (Inl (dec, e, sv, i, n))) \<Rightarrow> (4 * size (TSlice e) + 1, n - i)
      | Inr (Inl (Inr (dec, ro, t, v, ai))) \<Rightarrow> (4 * size t + 2, 0)
      | Inr (Inr (Inl (dec, ro, kt, vt, m, i, n))) \<Rightarrow> (4 * size (TMap kt vt) + 1, n - i)
      | Inr (Inr (Inr (Inl (dec, m, i, n)))) \<Rightarrow> (1, n - i)
      | Inr (Inr (Inr (Inr (dec, ro, fs, vals, i, n)))) \<Rightarrow> (4 * size (TStruct fs) + 1, n - i))"

section \<open>The nested path: \<^verbatim>\<open>decode\<close>\<close>

text \<open>
  \<^verbatim>\<open>decode(rv)\<close> and the functions it calls and that call it back. Each takes the
  type and the value of its \<^verbatim>\<open>reflect.Value\<close> and returns the value after the call
  (the source writes through \<open>rv\<close>). What a failed call has already written is not
  kept. A value that does not have the type it comes with cannot arise in Go; the model
  answers \<open>Panic\<close> there.

  \<open>decodeKind\<close> is the end of \<^verbatim>\<open>decode\<close>, after the pointers are followed: the
  three tests on the kind and the call of \<^verbatim>\<open>decodeBasic\<close>. A loop
  \<^verbatim>\<open>for i := 0; i < n; i++\<close> is a function of \<open>i\<close> and \<open>n\<close>; a negative \<open>n\<close>
  is no iteration.
\<close>

function decode :: "Decoder \<Rightarrow> bool \<Rightarrow> gotype \<Rightarrow> goval \<Rightarrow> goval result"
  and decodeKind :: "Decoder \<Rightarrow> bool \<Rightarrow> gotype \<Rightarrow> goval \<Rightarrow> goval result"
  and decodeStruct ::
    "Decoder \<Rightarrow> bool \<Rightarrow> (gostring \<times> bool \<times> ftag \<times> gotype) list \<Rightarrow> goval \<Rightarrow> goval result"
  and decodeStructLoop ::
    "Decoder \<Rightarrow> bool \<Rightarrow> (gostring \<times> bool \<times> ftag \<times> gotype) list \<Rightarrow> goval list \<Rightarrow> nat \<Rightarrow> nat
       \<Rightarrow> (goval list) result"
  and decodeSlice :: "Decoder \<Rightarrow> bool \<Rightarrow> gotype \<Rightarrow> goval result"
  and decodeSliceLoop ::
    "Decoder \<Rightarrow> gotype \<Rightarrow> goval list \<Rightarrow> nat \<Rightarrow> nat \<Rightarrow> (goval list) result"
  and decodeMap :: "Decoder \<Rightarrow> bool \<Rightarrow> gotype \<Rightarrow> goval \<Rightarrow> byte \<Rightarrow> goval result"
  and decodeMapLoop ::
    "Decoder \<Rightarrow> bool \<Rightarrow> gotype \<Rightarrow> gotype \<Rightarrow> (goval \<times> goval) list \<Rightarrow> nat \<Rightarrow> nat
       \<Rightarrow> ((goval \<times> goval) list) result"
  and decodeMapInterfaceLoop ::
    "Decoder \<Rightarrow> (goval \<times> goval) list \<Rightarrow> nat \<Rightarrow> nat \<Rightarrow> ((goval \<times> goval) list) result"
  and decodeMapStructLoop ::
    "Decoder \<Rightarrow> bool \<Rightarrow> (gostring \<times> bool \<times> ftag \<times> gotype) list \<Rightarrow> goval list \<Rightarrow> nat \<Rightarrow> nat
       \<Rightarrow> (goval list) result"
where
  "decode dec ro t v =
     (case t of
        TPtr t1 \<Rightarrow>
          (case allocElem ro t1 v of
             Inl e \<Rightarrow> (Inl e, dec)
           | Inr x \<Rightarrow>
               (case t1 of
                  TInterface \<Rightarrow>
                    andThen (setValue ro (VInterface IReader) dec)
                      (\<lambda>i dec. (Inr (VPtr (Some i)), dec))
                | TPtr t2 \<Rightarrow>
                    (case allocElem ro t2 x of
                       Inl e \<Rightarrow> (Inl e, dec)
                     | Inr y \<Rightarrow>
                         andThen (decodeKind dec ro t2 y)
                           (\<lambda>y dec. (Inr (VPtr (Some (VPtr (Some y)))), dec)))
                | _ \<Rightarrow>
                    andThen (decodeKind dec ro t1 x) (\<lambda>x dec. (Inr (VPtr (Some x)), dec))))
      | _ \<Rightarrow> (Inl NonPointer, dec))"
| "decodeKind dec ro t v =
     (case t of
        TStruct fs \<Rightarrow> decodeStruct dec ro fs v
      | TSlice e \<Rightarrow> decodeSlice dec ro e
      | TMap kt vt \<Rightarrow> decodeMap dec ro (TMap kt vt) v (of_nat (Len v))
      | _ \<Rightarrow> decodeBasic dec ro t)"
| "decodeStruct dec ro fs v =
     andThen (readMapHeader dec) (\<lambda>n dec.
       case v of
         VStruct vals \<Rightarrow>
           andThen (decodeStructLoop dec ro fs vals 0 (nat n))
             (\<lambda>vals dec. (Inr (VStruct vals), dec))
       | _ \<Rightarrow> (Inl Panic, dec))"
| "decodeStructLoop dec ro fs vals i n =
     (if i < n then
        andThen (readString dec) (\<lambda>key dec.
          case FieldByNameFunc fs key of
            Inl e \<Rightarrow> (Inl e, dec)
          | Inr None \<Rightarrow> (Inl (UnknownField key), dec)
          | Inr (Some j) \<Rightarrow>
              andThen (decode dec (ro \<or> \<not> fieldExported (fs ! j)) (TPtr (fieldType (fs ! j)))
                         (VPtr (Some (vals ! j))))
                (\<lambda>p dec.
                   case Elem p of
                     Inl e \<Rightarrow> (Inl e, dec)
                   | Inr x \<Rightarrow> decodeStructLoop dec ro fs (vals[j := x]) (Suc i) n))
      else (Inr vals, dec))"
| "decodeSlice dec ro e =
     andThen (readArrayHeader dec) (\<lambda>n dec.
       if n < 0 then (Inl Panic, dec)
       else andThen (decodeSliceLoop dec e (replicate (nat n) (Zero e)) 0 (nat n))
              (\<lambda>sv dec. setValue ro (VSlice (Some sv)) dec))"
| "decodeSliceLoop dec e sv i n =
     (if i < n then
        andThen (decode dec False (TPtr e) (VPtr (Some (sv ! i)))) (\<lambda>p dec.
          case Elem p of
            Inl err \<Rightarrow> (Inl err, dec)
          | Inr x \<Rightarrow> decodeSliceLoop dec e (sv[i := x]) (Suc i) n)
      else (Inr sv, dec))"
| "decodeMap dec ro t v ai =
     andThen (readArgument dec ai) (\<lambda>n dec.
       case t of
         TMap kt vt \<Rightarrow>
           (case v of
              VMap None \<Rightarrow>
                (if ro then (Inl Panic, dec)
                 else andThen (decodeMapLoop dec ro kt vt [] 0 (nat (sint n)))
                        (\<lambda>m dec. (Inr (VMap (Some m)), dec)))
            | VMap (Some m) \<Rightarrow>
                andThen (decodeMapLoop dec ro kt vt m 0 (nat (sint n)))
                  (\<lambda>m dec. (Inr (VMap (Some m)), dec))
            | _ \<Rightarrow> (Inl Panic, dec))
       | TInterface \<Rightarrow>
           andThen (decodeMapInterfaceLoop dec [] 0 (nat (sint n))) (\<lambda>m dec.
             setValue ro (VInterface (IVal (TMap TInterface TInterface) (VMap (Some m)))) dec)
       | TStruct fs \<Rightarrow>
           (case v of
              VStruct vals \<Rightarrow>
                andThen (decodeMapStructLoop dec ro fs vals 0 (nat (sint n)))
                  (\<lambda>vals dec. (Inr (VStruct vals), dec))
            | _ \<Rightarrow> (Inl Panic, dec))
       | _ \<Rightarrow> (Inl CannotUnmarshalMap, dec))"
| "decodeMapLoop dec ro kt vt m i n =
     (if i < n then
        (case newKey kt of
           Inl e \<Rightarrow> (Inl e, dec)
         | Inr tk \<Rightarrow>
             andThen (decode dec False (fst tk) (snd tk)) (\<lambda>key dec.
               andThen (decode dec False (fst (newVal vt)) (snd (newVal vt))) (\<lambda>val dec.
                 case storeEntry ro kt vt key val m of
                   Inl e \<Rightarrow> (Inl e, dec)
                 | Inr m' \<Rightarrow> decodeMapLoop dec ro kt vt m' (Suc i) n)))
      else (Inr m, dec))"
| "decodeMapInterfaceLoop dec m i n =
     (if i < n then
        andThen (decode dec False TInterface (VInterface INil)) (\<lambda>key dec.
          andThen (decode dec False TInterface (VInterface INil)) (\<lambda>val dec.
            decodeMapInterfaceLoop dec (SetMapIndex TInterface m key val) (Suc i) n))
      else (Inr m, dec))"
| "decodeMapStructLoop dec ro fs vals i n =
     (if i < n then
        andThen (readMapKey dec) (\<lambda>key dec.
          case fieldCache fs (toString key) of
            None \<Rightarrow>
              (case readValue dec of
                 (Inl e, dec) \<Rightarrow> (Inl (wrapError CannotSkipValue e), dec)
               | (Inr x, dec) \<Rightarrow> decodeMapStructLoop dec ro fs vals (Suc i) n)
          | Some j \<Rightarrow>
              (if isPtr (fieldType (fs ! j)) then
                 andThen (decode dec ro (fieldType (fs ! j)) (vals ! j)) (\<lambda>x dec.
                   decodeMapStructLoop dec ro fs (vals[j := x]) (Suc i) n)
               else
                 andThen (decode dec ro (TPtr (fieldType (fs ! j))) (VPtr (Some (vals ! j))))
                   (\<lambda>p dec.
                      case Elem p of
                        Inl e \<Rightarrow> (Inl e, dec)
                      | Inr x \<Rightarrow> decodeMapStructLoop dec ro fs (vals[j := x]) (Suc i) n)))
      else (Inr vals, dec))"
  by pat_completeness auto

termination decode
  apply (relation "inv_image (less_than <*lex*> less_than) decodeMeasure")
  apply (auto simp: decodeMeasure_def
              dest!: FieldByNameFunc_less fieldCache_less size_field_nth size_newKey)
  subgoal for dec kt vt i n a b x d
    using size_newVal [of vt] by (cases "newVal vt") auto
  done

declare decode.simps [simp del] decodeKind.simps [simp del] decodeStruct.simps [simp del]
  decodeStructLoop.simps [simp del] decodeSlice.simps [simp del]
  decodeSliceLoop.simps [simp del] decodeMap.simps [simp del] decodeMapLoop.simps [simp del]
  decodeMapInterfaceLoop.simps [simp del] decodeMapStructLoop.simps [simp del]

section \<open>The top-level path: \<^verbatim>\<open>decodeValue\<close>\<close>

text \<open>
  \<^verbatim>\<open>Decode\<close> reads the head of the top-level item with \<^verbatim>\<open>readHeader\<close> and
  dispatches on the major type. The destination of these functions is the target of the
  pointer given to \<^verbatim>\<open>Decode\<close>: it can be set.
\<close>

definition decodeUint :: "Decoder \<Rightarrow> gotype \<Rightarrow> goval \<Rightarrow> byte \<Rightarrow> goval result" where
  "decodeUint dec t v ai =
     andThen (readArgument dec ai) (\<lambda>n dec.
       case t of
         TUint k \<Rightarrow> (Inr (SetUint k n), dec)
       | TInt k \<Rightarrow> (Inr (SetInt k (sint n)), dec)
       | TInterface \<Rightarrow> (Inr (VInterface (IVal (TUint KUint64) (VUint (uint n)))), dec)
       | TPtr t1 \<Rightarrow>
           (case allocElem False t1 v of
              Inl e \<Rightarrow> (Inl e, dec)
            | Inr x \<Rightarrow>
                (case t1 of
                   TUint k \<Rightarrow> (Inr (VPtr (Some (SetUint k n))), dec)
                 | TInt k \<Rightarrow> (Inr (VPtr (Some (SetInt k (sint n)))), dec)
                 | TInterface \<Rightarrow>
                     (Inr (VPtr (Some (VInterface (IVal (TUint KUint64) (VUint (uint n)))))), dec)
                 | _ \<Rightarrow> (Inl CannotUnmarshalUint, dec)))
       | _ \<Rightarrow> (Inl CannotUnmarshalUint, dec))"

text \<open>
  \<^verbatim>\<open>decodeInt\<close> reads the argument through \<^verbatim>\<open>decodeUint\<close> into a local
  \<^verbatim>\<open>uint64\<close>. \<^verbatim>\<open>-1 - int64(n)\<close> is computed on 64 bits; \<^verbatim>\<open>rv.Elem()\<close> of a nil
  pointer is the invalid value, whose kind matches no case.
\<close>

definition decodeInt :: "Decoder \<Rightarrow> gotype \<Rightarrow> goval \<Rightarrow> byte \<Rightarrow> goval result" where
  "decodeInt dec t v ai =
     andThen (decodeUint dec (TPtr (TUint KUint64)) (VPtr (Some (VUint 0))) ai) (\<lambda>nx dec.
       case nx of
         VPtr (Some (VUint u)) \<Rightarrow>
           (let n = (word_of_int u :: 64 word);
                x = sint (- 1 - n)
            in case t of
                 TInt k \<Rightarrow> (Inr (SetInt k x), dec)
               | TInterface \<Rightarrow> (Inr (VInterface (IVal (TInt KInt64) (VInt x))), dec)
               | TPtr t1 \<Rightarrow>
                   (case v of
                      VPtr (Some old) \<Rightarrow>
                        (case t1 of
                           TInt k \<Rightarrow> (Inr (VPtr (Some (SetInt k x))), dec)
                         | TInterface \<Rightarrow>
                             (Inr (VPtr (Some (VInterface (IVal (TInt KInt64) (VInt x))))), dec)
                         | _ \<Rightarrow> (Inl CannotUnmarshalInt, dec))
                    | _ \<Rightarrow> (Inl CannotUnmarshalInt, dec))
               | _ \<Rightarrow> (Inl CannotUnmarshalInt, dec))
       | _ \<Rightarrow> (Inl Panic, dec))"

definition decodeBytes :: "Decoder \<Rightarrow> gotype \<Rightarrow> goval \<Rightarrow> byte \<Rightarrow> goval result" where
  "decodeBytes dec t v ai =
     andThen (readArgument dec ai) (\<lambda>n dec.
       if 0x7FFFFFFF < n then (Inl ByteStringTooLong, dec)
       else if word_of_int (maxBytes dec) < n then (Inl ByteStringTooLong, dec)
       else andThen (ReadFull dec (unat n)) (\<lambda>buf dec.
         case t of
           TSlice e \<Rightarrow>
             (if e = TUint KUint8 then
                (Inr (VSlice (Some (map (\<lambda>b. VUint (uint b)) buf))), dec)
              else (Inl CannotUnmarshalByteString, dec))
         | TInterface \<Rightarrow>
             (Inr (VInterface (IVal (TSlice (TUint KUint8))
                                 (VSlice (Some (map (\<lambda>b. VUint (uint b)) buf))))), dec)
         | _ \<Rightarrow> (Inl CannotUnmarshalByteString, dec)))"

definition decodeString :: "Decoder \<Rightarrow> gotype \<Rightarrow> goval \<Rightarrow> byte \<Rightarrow> goval result" where
  "decodeString dec t v ai =
     andThen (readArgument dec ai) (\<lambda>n dec.
       if 0x7FFFFFFF < n then (Inl StringTooLong, dec)
       else andThen (ReadFull dec (unat n)) (\<lambda>buf dec.
         case t of
           TString \<Rightarrow> (Inr (VString buf), dec)
         | TInterface \<Rightarrow> (Inr (VInterface (IVal TString (VString buf))), dec)
         | TPtr t1 \<Rightarrow>
             (if t1 = TString then
                (case allocElem False t1 v of
                   Inl e \<Rightarrow> (Inl e, dec)
                 | Inr x \<Rightarrow> (Inr (VPtr (Some (VString buf))), dec))
              else (Inl CannotUnmarshalString, dec))
         | _ \<Rightarrow> (Inl CannotUnmarshalString, dec)))"

text \<open>
  The loops of \<^verbatim>\<open>decodeArray\<close>. \<^verbatim>\<open>rv.Index(i)\<close> panics when a slice that was not
  nil is shorter than the declared length.
\<close>

function decodeArrayLoop ::
  "Decoder \<Rightarrow> gotype \<Rightarrow> goval list \<Rightarrow> nat \<Rightarrow> nat \<Rightarrow> (goval list) result" where
  "decodeArrayLoop dec e xs i n =
     (if i < n then
        (if length xs \<le> i then (Inl Panic, dec)
         else if isPtr e then
           andThen (decode dec False e (xs ! i)) (\<lambda>x dec.
             decodeArrayLoop dec e (xs[i := x]) (Suc i) n)
         else
           andThen (decode dec False (TPtr e) (VPtr (Some (xs ! i)))) (\<lambda>p dec.
             case Elem p of
               Inl err \<Rightarrow> (Inl err, dec)
             | Inr x \<Rightarrow> decodeArrayLoop dec e (xs[i := x]) (Suc i) n))
      else (Inr xs, dec))"
  by pat_completeness auto
termination
  by (relation "measure (\<lambda>(dec, e, xs, i, n). n - i)") auto

declare decodeArrayLoop.simps [simp del]

function decodeArrayInterfaceLoop ::
  "Decoder \<Rightarrow> goval list \<Rightarrow> nat \<Rightarrow> nat \<Rightarrow> (goval list) result" where
  "decodeArrayInterfaceLoop dec xs i n =
     (if i < n then
        (if length xs \<le> i then (Inl Panic, dec)
         else andThen (decode dec False TInterface (xs ! i)) (\<lambda>x dec.
                decodeArrayInterfaceLoop dec (xs[i := x]) (Suc i) n))
      else (Inr xs, dec))"
  by pat_completeness auto
termination
  by (relation "measure (\<lambda>(dec, xs, i, n). n - i)") auto

declare decodeArrayInterfaceLoop.simps [simp del]

definition decodeArray :: "Decoder \<Rightarrow> gotype \<Rightarrow> goval \<Rightarrow> byte \<Rightarrow> goval result" where
  "decodeArray dec t v ai =
     andThen (readArgument dec ai) (\<lambda>n dec.
       if word_of_int (maxArrayElements dec) < n then (Inl ArrayTooLong, dec)
       else
         case t of
           TSlice e \<Rightarrow>
             (case v of
                VSlice None \<Rightarrow>
                  (if sint n < 0 then (Inl Panic, dec)
                   else andThen (decodeArrayLoop dec e (replicate (nat (sint n)) (Zero e)) 0
                                   (nat (sint n)))
                          (\<lambda>xs dec. (Inr (VSlice (Some xs)), dec)))
              | VSlice (Some xs) \<Rightarrow>
                  andThen (decodeArrayLoop dec e xs 0 (nat (sint n)))
                    (\<lambda>xs dec. (Inr (VSlice (Some xs)), dec))
              | _ \<Rightarrow> (Inl Panic, dec))
         | TArray len e \<Rightarrow>
             (case v of
                VArray xs \<Rightarrow>
                  (if int len = sint n then
                     andThen (decodeArrayLoop dec e xs 0 (nat (sint n)))
                       (\<lambda>xs dec. (Inr (VArray xs), dec))
                   else (Inl WrongArrayLength, dec))
              | _ \<Rightarrow> (Inl Panic, dec))
         | TInterface \<Rightarrow>
             (if sint n < 0 then (Inl Panic, dec)
              else andThen (decodeArrayInterfaceLoop dec (replicate (unat n) (VInterface INil)) 0
                              (nat (sint n)))
                     (\<lambda>xs dec.
                        (Inr (VInterface (IVal (TSlice TInterface) (VSlice (Some xs)))), dec)))
         | _ \<Rightarrow> (Inl CannotUnmarshalArray, dec))"

text \<open>
  \<^verbatim>\<open>decodeSimpleValue\<close>. The cases of the 32-bit and of the 64-bit float store the
  \<^verbatim>\<open>float64\<close> they have read in the same way, \<open>storeFloat\<close>; a \<^verbatim>\<open>rv.Set\<close> of a
  \<^verbatim>\<open>float64\<close> into a destination of another type than \<^verbatim>\<open>float64\<close> and
  \<^verbatim>\<open>interface{}\<close> panics, and so does \<^verbatim>\<open>rv.SetBool\<close> on any kind but bool.
\<close>

definition storeFloat :: "gotype \<Rightarrow> 64 word \<Rightarrow> error + goval" where
  "storeFloat t f =
     (case t of
        TFloat32 \<Rightarrow> Inr (VFloat32 (float32_of_float64 f))
      | TFloat64 \<Rightarrow> Inr (VFloat64 f)
      | TPtr t1 \<Rightarrow>
          (case t1 of
             TFloat32 \<Rightarrow> Inr (VPtr (Some (VFloat32 (float32_of_float64 f))))
           | TFloat64 \<Rightarrow> Inr (VPtr (Some (VFloat64 f)))
           | _ \<Rightarrow> Inl Panic)
      | TInterface \<Rightarrow> Inr (VInterface (IVal TFloat64 (VFloat64 f)))
      | _ \<Rightarrow> Inl Panic)"

definition storeBool :: "gotype \<Rightarrow> bool \<Rightarrow> error + goval" where
  "storeBool t b =
     (case t of
        TBool \<Rightarrow> Inr (VBool b)
      | TPtr t1 \<Rightarrow> (if t1 = TBool then Inr (VPtr (Some (VBool b))) else Inl Panic)
      | _ \<Rightarrow> Inl Panic)"

definition decodeSimpleValue :: "Decoder \<Rightarrow> gotype \<Rightarrow> goval \<Rightarrow> byte \<Rightarrow> goval result" where
  "decodeSimpleValue dec t v ai =
     (if ai = 20 then (storeBool t False, dec)
      else if ai = 21 then (storeBool t True, dec)
      else if ai = 22 then (Inr (Zero t), dec)
      else if ai = 23 then (Inr v, dec)
      else if ai = 25 then (Inl Float16NotSupported, dec)
      else if ai = 26 then andThen (readFloat32 dec) (\<lambda>f dec. (storeFloat t f, dec))
      else if ai = 27 then andThen (readFloat64 dec) (\<lambda>f dec. (storeFloat t f, dec))
      else (Inl (InvalidSimpleValue ai), dec))"

text \<open>
  \<^verbatim>\<open>decodeTag\<close>. Tag 0 reads two more bytes, each through the same switch as an
  additional information (on the whole byte), and stores a \<^verbatim>\<open>*big.Int\<close>: of the
  destinations of the model only an \<^verbatim>\<open>interface{}\<close> can hold it. Every other tag the
  switch knows calls \<^verbatim>\<open>decode(rv)\<close> first and then asks for the kind of \<open>rv\<close> to be
  a slice (tags 1 to 5, 21 to 23, 29) or a string (tags 24 to 28). \<^verbatim>\<open>decode\<close> has
  failed by then unless \<open>rv\<close> is a pointer (lemma \<open>decode_not_pointer\<close> below), so what
  follows the test of the kind never runs; \<open>afterSliceTest\<close> keeps the tests of the
  length and of the element kinds, and the parsers of tags 24 to 28 (URL, base64, regular
  expression, mail), which the code calls on a string destination only, are a panic of
  the model.
\<close>

definition afterSliceTest :: "64 word \<Rightarrow> gotype \<Rightarrow> goval \<Rightarrow> error + goval" where
  "afterSliceTest n t v =
     (case t of
        TSlice e \<Rightarrow>
          (if n = 29 then Inr v
           else if Len v \<noteq> 2 then Inl InvalidTagged
           else if n = 5 then
             (case e of
                TSlice e2 \<Rightarrow>
                  (case v of
                     VSlice (Some xs) \<Rightarrow>
                       (if Len (xs ! 0) \<noteq> 2 then Inl InvalidTagged
                        else if Len (xs ! 1) \<noteq> 2 then Inl InvalidTagged
                        else if e2 = TInt KInt64 then Inl TagNotFullyImplemented
                        else Inl InvalidTagged)
                   | _ \<Rightarrow> Inl Panic)
              | _ \<Rightarrow> Inl InvalidTagged)
           else if e = TInt KInt64 then
             (if n = 21 \<or> n = 22 \<or> n = 23 then Inl TagNotFullyImplemented else Inl Panic)
           else Inl InvalidTagged)
      | _ \<Rightarrow> Inl CannotUnmarshalTagged)"

definition decodeTag :: "Decoder \<Rightarrow> gotype \<Rightarrow> goval \<Rightarrow> byte \<Rightarrow> goval result" where
  "decodeTag dec t v ai =
     andThen (readArgument dec ai) (\<lambda>n dec.
       if n = 0 then
         andThen (readByte dec) (\<lambda>ai dec.
           andThen (readArgument dec ai) (\<lambda>exp dec.
             andThen (readByte dec) (\<lambda>ai dec.
               andThen (readArgument dec ai) (\<lambda>coef dec.
                 case t of
                   TInterface \<Rightarrow> (Inr (VInterface (IBigInt (sint coef * 2 ^ unat exp))), dec)
                 | _ \<Rightarrow> (Inl Panic, dec)))))
       else if n = 1 \<or> n = 2 \<or> n = 3 \<or> n = 4 \<or> n = 5 \<or> n = 21 \<or> n = 22 \<or> n = 23 \<or> n = 29 then
         andThen (decode dec False t v) (\<lambda>v dec. (afterSliceTest n t v, dec))
       else if n = 24 \<or> n = 25 \<or> n = 26 \<or> n = 27 \<or> n = 28 then
         andThen (decode dec False t v) (\<lambda>v dec.
           if t = TString then (Inl Panic, dec) else (Inl CannotUnmarshalTagged, dec))
       else (Inl (UnknownTag n), dec))"

definition decodeValue :: "Decoder \<Rightarrow> gotype \<Rightarrow> goval \<Rightarrow> goval result" where
  "decodeValue dec t v =
     andThen (readHeader dec) (\<lambda>h dec.
       let mt = fst h; ai = snd h
       in if mt = 0 then decodeUint dec t v ai
          else if mt = 1 then decodeInt dec t v ai
          else if mt = 2 then decodeBytes dec t v ai
          else if mt = 3 then decodeString dec t v ai
          else if mt = 4 then decodeArray dec t v ai
          else if mt = 5 then decodeMap dec False t v ai
          else if mt = 6 then decodeTag dec t v ai
          else if mt = 7 then decodeSimpleValue dec t v ai
          else (Inl InvalidMajorType, dec))"

text \<open>
  \<^verbatim>\<open>Decode(v)\<close>. The argument is an \<^verbatim>\<open>interface{}\<close>: \<open>None\<close> is the untyped
  \<^verbatim>\<open>nil\<close>, for which \<^verbatim>\<open>reflect.ValueOf\<close> returns the invalid value and
  \<^verbatim>\<open>rv.Type()\<close>, called to build the message, panics. The result is the pointer after
  the call.
\<close>

definition Decode :: "Decoder \<Rightarrow> (gotype \<times> goval) option \<Rightarrow> goval result" where
  "Decode dec v =
     (case v of
        None \<Rightarrow> (Inl Panic, dec)
      | Some tv \<Rightarrow>
          (case fst tv of
             TPtr t1 \<Rightarrow>
               (case snd tv of
                  VPtr None \<Rightarrow> (Inl DecodeNil, dec)
                | VPtr (Some x) \<Rightarrow>
                    (case decodeValue dec t1 x of
                       (Inl e, dec) \<Rightarrow> (Inl (wrapError DecodeFailed e), dec)
                     | (Inr y, dec) \<Rightarrow> (Inr (VPtr (Some y)), dec))
                | _ \<Rightarrow> (Inl Panic, dec))
           | _ \<Rightarrow> (Inl DecodeNonPointer, dec)))"

definition Unmarshal :: "byte list \<Rightarrow> (gotype \<times> goval) option \<Rightarrow> goval result" where
  "Unmarshal data v = Decode (NewDecoder data) v"

section \<open>The encoder\<close>

text \<open>
  The encoder writes to a sink that never fails (a \<^verbatim>\<open>bytes.Buffer\<close>): \<open>w\<close> is what
  has been written. \<^verbatim>\<open>Encode(v)\<close> takes an \<^verbatim>\<open>interface{}\<close>; a method returns its
  error, if any, and the encoder after the call.
\<close>

record Encoder =
  w :: "byte list"

definition NewEncoder :: Encoder where
  "NewEncoder = \<lparr>w = []\<rparr>"

definition Write :: "Encoder \<Rightarrow> byte list \<Rightarrow> error option \<times> Encoder" where
  "Write enc bs = (None, enc\<lparr>w := w enc @ bs\<rparr>)"

text \<open>\<^verbatim>\<open>if err != nil { return err }\<close> after a write.\<close>

definition thenWrite ::
  "error option \<times> Encoder \<Rightarrow> (Encoder \<Rightarrow> error option \<times> Encoder) \<Rightarrow> error option \<times> Encoder" where
  "thenWrite m f = (case m of (Some e, enc) \<Rightarrow> (Some e, enc) | (None, enc) \<Rightarrow> f enc)"

lemma thenWrite_Some [simp]: "thenWrite (Some e, enc) f = (Some e, enc)"
  by (simp add: thenWrite_def)

lemma thenWrite_None [simp]: "thenWrite (None, enc) f = f enc"
  by (simp add: thenWrite_def)

lemma thenWrite_cong [fundef_cong]:
  "m = m' \<Longrightarrow> (\<And>enc. m' = (None, enc) \<Longrightarrow> f enc = f' enc) \<Longrightarrow> thenWrite m f = thenWrite m' f'"
  by (auto simp: thenWrite_def split: prod.splits option.splits)

definition writeNull :: "Encoder \<Rightarrow> error option \<times> Encoder" where
  "writeNull enc = Write enc [0xf6]"

definition writeBool :: "Encoder \<Rightarrow> bool \<Rightarrow> error option \<times> Encoder" where
  "writeBool enc v = (if v then Write enc [0xf5] else Write enc [0xf4])"

text \<open>\<^verbatim>\<open>byte(v >> k)\<close> of a 64-bit integer.\<close>

definition byteAt :: "64 word \<Rightarrow> nat \<Rightarrow> byte" where
  "byteAt x k = ucast (drop_bit k x)"

definition writeInt :: "Encoder \<Rightarrow> int \<Rightarrow> error option \<times> Encoder" where
  "writeInt enc v =
     (let x = (word_of_int v :: 64 word)
      in if 0 \<le> v \<and> v \<le> 23 then Write enc [byteAt x 0]
         else if 24 \<le> v \<and> v \<le> 255 then Write enc [0x18, byteAt x 0]
         else if 256 \<le> v \<and> v \<le> 65535 then Write enc [0x19, byteAt x 8, byteAt x 0]
         else if 65536 \<le> v \<and> v \<le> 4294967295 then
           Write enc [0x1a, byteAt x 24, byteAt x 16, byteAt x 8, byteAt x 0]
         else if 4294967296 \<le> v \<and> v \<le> 9223372036854775807 - 1 then
           Write enc [0x1b, byteAt x 56, byteAt x 48, byteAt x 40, byteAt x 32,
                      byteAt x 24, byteAt x 16, byteAt x 8, byteAt x 0]
         else (Some IntegerOutOfRange, enc))"

definition writeUint :: "Encoder \<Rightarrow> int \<Rightarrow> error option \<times> Encoder" where
  "writeUint enc v =
     (let x = (word_of_int v :: 64 word)
      in if v \<le> 23 then Write enc [byteAt x 0]
         else if 24 \<le> v \<and> v \<le> 255 then Write enc [0x18, byteAt x 0]
         else if 256 \<le> v \<and> v \<le> 65535 then Write enc [0x19, byteAt x 8, byteAt x 0]
         else if 65536 \<le> v \<and> v \<le> 4294967295 then
           Write enc [0x1a, byteAt x 24, byteAt x 16, byteAt x 8, byteAt x 0]
         else if 4294967296 \<le> v \<and> v \<le> 18446744073709551615 - 1 then
           Write enc [0x1b, byteAt x 56, byteAt x 48, byteAt x 40, byteAt x 32,
                      byteAt x 24, byteAt x 16, byteAt x 8, byteAt x 0]
         else (Some IntegerOutOfRange, enc))"

definition writeFloat :: "Encoder \<Rightarrow> 64 word \<Rightarrow> error option \<times> Encoder" where
  "writeFloat enc v =
     thenWrite (Write enc [0xfb]) (\<lambda>enc.
       Write enc [byteAt v 56, byteAt v 48, byteAt v 40, byteAt v 32,
                  byteAt v 24, byteAt v 16, byteAt v 8, byteAt v 0])"

definition writeString :: "Encoder \<Rightarrow> gostring \<Rightarrow> error option \<times> Encoder" where
  "writeString enc v =
     thenWrite (Write enc [0x78, of_nat (length v)]) (\<lambda>enc. Write enc v)"

text \<open>
  \<^verbatim>\<open>rv.Interface()\<close>: the value as an \<^verbatim>\<open>interface{}\<close>; for a value of interface
  type, what it holds. \<open>getKey\<close> is the closure of \<^verbatim>\<open>writeMap\<close>: a string, an
  \<^verbatim>\<open>int64\<close> or a \<^verbatim>\<open>uint64\<close> for a key of these kinds.
\<close>

definition Interface :: "gotype \<Rightarrow> goval \<Rightarrow> iface" where
  "Interface t v =
     (case t of
        TInterface \<Rightarrow> (case v of VInterface i \<Rightarrow> i | _ \<Rightarrow> INil)
      | _ \<Rightarrow> IVal t v)"

definition getKey :: "gotype \<Rightarrow> goval \<Rightarrow> iface" where
  "getKey kt key =
     (case kt of
        TString \<Rightarrow> IVal TString key
      | TInt k \<Rightarrow> IVal (TInt KInt64) key
      | TUint k \<Rightarrow> (if k = KUintptr then Interface kt key else IVal (TUint KUint64) key)
      | _ \<Rightarrow> Interface kt key)"

definition ifaceSize :: "iface \<Rightarrow> nat" where
  "ifaceSize i = (case i of IVal t v \<Rightarrow> size v | _ \<Rightarrow> 0)"

lemma ifaceSize_Interface: "ifaceSize (Interface t v) \<le> size v"
  by (auto simp: Interface_def ifaceSize_def split: gotype.splits goval.splits iface.splits)

lemma ifaceSize_getKey: "ifaceSize (getKey t v) \<le> size v"
  using ifaceSize_Interface [of t v]
  by (auto simp: getKey_def ifaceSize_def split: gotype.splits)

lemma ifaceSize_IVal: "ifaceSize (IVal t v) = size v"
  by (simp add: ifaceSize_def)

definition encodeMeasure ::
  "(Encoder \<times> iface + Encoder \<times> gotype \<times> goval list + Encoder \<times> gotype \<times> goval list) +
   (Encoder \<times> gotype \<times> gotype \<times> (goval \<times> goval) list +
    Encoder \<times> gotype \<times> gotype \<times> (goval \<times> goval) list) +
   Encoder \<times> (gostring \<times> bool \<times> ftag \<times> gotype) list \<times> goval list +
   Encoder \<times> (gostring \<times> bool \<times> ftag \<times> gotype) list \<times> goval list \<Rightarrow> nat" where
  "encodeMeasure x =
     (case x of
        Inl (Inl (enc, v)) \<Rightarrow> 3 * ifaceSize v
      | Inl (Inr (Inl (enc, e, xs))) \<Rightarrow> 3 * size_list size xs + 2
      | Inl (Inr (Inr (enc, e, xs))) \<Rightarrow> 3 * size_list size xs + 1
      | Inr (Inl (Inl (enc, kt, vt, m))) \<Rightarrow> 3 * size_list (size_prod size size) m + 2
      | Inr (Inl (Inr (enc, kt, vt, m))) \<Rightarrow> 3 * size_list (size_prod size size) m + 1
      | Inr (Inr (Inl (enc, fs, vals))) \<Rightarrow> 3 * size_list size vals + 2
      | Inr (Inr (Inr (enc, fs, vals))) \<Rightarrow> 3 * size_list size vals + 1)"

text \<open>
  \<^verbatim>\<open>Encode\<close> and the three writers that call it back. A map is written in the order
  of \<^verbatim>\<open>MapKeys()\<close>, the order of the entries of the model. \<^verbatim>\<open>writeStruct\<close> writes
  the values of the fields and no key; \<^verbatim>\<open>Field(i).Interface()\<close> panics for an
  unexported field. A value whose dynamic type is a pointer is of no kind in the switch.
\<close>

function Encode :: "Encoder \<Rightarrow> iface \<Rightarrow> error option \<times> Encoder"
  and writeArray :: "Encoder \<Rightarrow> gotype \<Rightarrow> goval list \<Rightarrow> error option \<times> Encoder"
  and writeArrayLoop :: "Encoder \<Rightarrow> gotype \<Rightarrow> goval list \<Rightarrow> error option \<times> Encoder"
  and writeMap ::
    "Encoder \<Rightarrow> gotype \<Rightarrow> gotype \<Rightarrow> (goval \<times> goval) list \<Rightarrow> error option \<times> Encoder"
  and writeMapLoop ::
    "Encoder \<Rightarrow> gotype \<Rightarrow> gotype \<Rightarrow> (goval \<times> goval) list \<Rightarrow> error option \<times> Encoder"
  and writeStruct ::
    "Encoder \<Rightarrow> (gostring \<times> bool \<times> ftag \<times> gotype) list \<Rightarrow> goval list \<Rightarrow> error option \<times> Encoder"
  and writeStructLoop ::
    "Encoder \<Rightarrow> (gostring \<times> bool \<times> ftag \<times> gotype) list \<Rightarrow> goval list \<Rightarrow> error option \<times> Encoder"
where
  "Encode enc v =
     (case v of
        INil \<Rightarrow> writeNull enc
      | IVal t x \<Rightarrow>
          (case t of
             TBool \<Rightarrow> (case x of VBool b \<Rightarrow> writeBool enc b | _ \<Rightarrow> (Some Panic, enc))
           | TInt k \<Rightarrow> (case x of VInt n \<Rightarrow> writeInt enc n | _ \<Rightarrow> (Some Panic, enc))
           | TUint k \<Rightarrow> (case x of VUint n \<Rightarrow> writeUint enc n | _ \<Rightarrow> (Some Panic, enc))
           | TFloat32 \<Rightarrow>
               (case x of
                  VFloat32 b \<Rightarrow> writeFloat enc (float64_of_float32 b)
                | _ \<Rightarrow> (Some Panic, enc))
           | TFloat64 \<Rightarrow> (case x of VFloat64 b \<Rightarrow> writeFloat enc b | _ \<Rightarrow> (Some Panic, enc))
           | TString \<Rightarrow> (case x of VString s \<Rightarrow> writeString enc s | _ \<Rightarrow> (Some Panic, enc))
           | TArray n e \<Rightarrow> (case x of VArray xs \<Rightarrow> writeArray enc e xs | _ \<Rightarrow> (Some Panic, enc))
           | TSlice e \<Rightarrow>
               (case x of
                  VSlice None \<Rightarrow> writeArray enc e []
                | VSlice (Some xs) \<Rightarrow> writeArray enc e xs
                | _ \<Rightarrow> (Some Panic, enc))
           | TMap kt vt \<Rightarrow>
               (case x of
                  VMap None \<Rightarrow> writeMap enc kt vt []
                | VMap (Some m) \<Rightarrow> writeMap enc kt vt m
                | _ \<Rightarrow> (Some Panic, enc))
           | TStruct fs \<Rightarrow>
               (case x of VStruct vals \<Rightarrow> writeStruct enc fs vals | _ \<Rightarrow> (Some Panic, enc))
           | _ \<Rightarrow> (Some UnsupportedType, enc))
      | IReader \<Rightarrow> (Some UnsupportedType, enc)
      | IBigInt n \<Rightarrow> (Some UnsupportedType, enc))"
| "writeArray enc e xs =
     thenWrite (Write enc [0x98, of_nat (length xs)]) (\<lambda>enc. writeArrayLoop enc e xs)"
| "writeArrayLoop enc e xs =
     (case xs of
        [] \<Rightarrow> (None, enc)
      | x # xs' \<Rightarrow> thenWrite (Encode enc (Interface e x)) (\<lambda>enc. writeArrayLoop enc e xs'))"
| "writeMap enc kt vt m =
     thenWrite (Write enc [0xb8, of_nat (length m)]) (\<lambda>enc. writeMapLoop enc kt vt m)"
| "writeMapLoop enc kt vt m =
     (case m of
        [] \<Rightarrow> (None, enc)
      | kv # m' \<Rightarrow>
          thenWrite (Encode enc (getKey kt (fst kv))) (\<lambda>enc.
            thenWrite (Encode enc (Interface vt (snd kv))) (\<lambda>enc. writeMapLoop enc kt vt m')))"
| "writeStruct enc fs vals =
     thenWrite (Write enc [0xb8, of_nat (length fs)]) (\<lambda>enc. writeStructLoop enc fs vals)"
| "writeStructLoop enc fs vals =
     (case fs of
        [] \<Rightarrow> (None, enc)
      | f # fs' \<Rightarrow>
          (case vals of
             [] \<Rightarrow> (Some Panic, enc)
           | x # vals' \<Rightarrow>
               (if fieldExported f then
                  thenWrite (Encode enc (Interface (fieldType f) x))
                    (\<lambda>enc. writeStructLoop enc fs' vals')
                else (Some Panic, enc))))"
  by pat_completeness auto

termination Encode
  apply (relation "measure encodeMeasure")
  apply (auto simp: encodeMeasure_def ifaceSize_IVal)
  subgoal for e x xs using ifaceSize_Interface [of e x] by simp
  subgoal for kt a b m using ifaceSize_getKey [of kt a] by simp
  subgoal for enc kt vt a b m using ifaceSize_Interface [of vt b] by simp
  subgoal for a aa ab b x xs using ifaceSize_Interface [of "fieldType (a, aa, ab, b)" x] by simp
  done

declare Encode.simps [simp del] writeArray.simps [simp del] writeArrayLoop.simps [simp del]
  writeMap.simps [simp del] writeMapLoop.simps [simp del] writeStruct.simps [simp del]
  writeStructLoop.simps [simp del]

section \<open>Properties\<close>

subsection \<open>Reading the head\<close>

lemma readByte_Cons: "readByte (dec\<lparr>r := b # rest\<rparr>) = (Inr b, dec\<lparr>r := rest\<rparr>)"
  by (simp add: readByte_def ReadFull_def)

lemma readHeader_Cons:
  "readHeader (dec\<lparr>r := b # rest\<rparr>) = (Inr (drop_bit 5 b, b AND 0x1f), dec\<lparr>r := rest\<rparr>)"
  by (simp add: readHeader_def readByte_Cons)

text \<open>\<^verbatim>\<open>decode\<close> fails at once, and reads nothing, unless it is given a pointer.\<close>

lemma decode_not_pointer: "\<not> isPtr t \<Longrightarrow> decode dec ro t v = (Inl NonPointer, dec)"
  by (cases t) (simp_all add: decode.simps isPtr_def)

subsection \<open>The model on the tests of the repository\<close>

text \<open>
  \<^verbatim>\<open>TestDecodeCWTClaims\<close> of decoder_test.go: the claims set of RFC 8392, A.1, decoded
  into the struct \<^verbatim>\<open>claims\<close> with its seven \<^verbatim>\<open>keyasint\<close> fields.
\<close>

definition claimsType :: gotype where
  "claimsType = TStruct
     [(bytes_of ''Iss'', True, CborTag (bytes_of ''1,keyasint''), TString),
      (bytes_of ''Sub'', True, CborTag (bytes_of ''2,keyasint''), TString),
      (bytes_of ''Aud'', True, CborTag (bytes_of ''3,keyasint''), TString),
      (bytes_of ''Exp'', True, CborTag (bytes_of ''4,keyasint''), TInt KInt),
      (bytes_of ''Nbf'', True, CborTag (bytes_of ''5,keyasint''), TInt KInt),
      (bytes_of ''Iat'', True, CborTag (bytes_of ''6,keyasint''), TInt KInt),
      (bytes_of ''Cti'', True, CborTag (bytes_of ''7,keyasint''), TSlice (TUint KUint8))]"

definition claimsData :: "byte list" where
  "claimsData =
     [0xa7, 0x01, 0x75, 0x63, 0x6f, 0x61, 0x70, 0x3a, 0x2f, 0x2f, 0x61, 0x73, 0x2e, 0x65, 0x78,
      0x61, 0x6d, 0x70, 0x6c, 0x65, 0x2e, 0x63, 0x6f, 0x6d, 0x02, 0x65, 0x65, 0x72, 0x69, 0x6b,
      0x77, 0x03, 0x78, 0x18, 0x63, 0x6f, 0x61, 0x70, 0x3a, 0x2f, 0x2f, 0x6c, 0x69, 0x67, 0x68,
      0x74, 0x2e, 0x65, 0x78, 0x61, 0x6d, 0x70, 0x6c, 0x65, 0x2e, 0x63, 0x6f, 0x6d, 0x04, 0x1a,
      0x56, 0x12, 0xae, 0xb0, 0x05, 0x1a, 0x56, 0x10, 0xd9, 0xf0, 0x06, 0x1a, 0x56, 0x10, 0xd9,
      0xf0, 0x07, 0x42, 0x0b, 0x71]"

lemma TestDecodeCWTClaims:
  "Decode (NewDecoder claimsData) (Some (TPtr claimsType, VPtr (Some (Zero claimsType))))
     = (Inr (VPtr (Some (VStruct
          [VString (bytes_of ''coap://as.example.com''),
           VString (bytes_of ''erikw''),
           VString (bytes_of ''coap://light.example.com''),
           VInt 1444064944, VInt 1443944944, VInt 1443944944,
           VSlice (Some [VUint 0x0b, VUint 0x71])]))),
        NewDecoder [])"
  by code_simp

text \<open>\<^verbatim>\<open>TestDecodeFloat32\<close> and the second half of the example of the README: the map
  \<^verbatim>\<open>{"one": 1, "two": 2}\<close> is written as \<^verbatim>\<open>b80278036f6e6501780374776f02\<close>.\<close>

lemma TestDecodeFloat32:
  "Decode (NewDecoder [0xFA, 0x40, 0x48, 0xF5, 0xC3]) (Some (TPtr TFloat32, VPtr (Some (VFloat32 0))))
     = (Inr (VPtr (Some (VFloat32 0x4048F5C3))), NewDecoder [])"
  by code_simp

lemma README_Encode:
  "Encode NewEncoder
      (IVal (TMap TString (TInt KInt))
         (VMap (Some [(VString (bytes_of ''one''), VInt 1), (VString (bytes_of ''two''), VInt 2)])))
     = (None, \<lparr>w = [0xb8, 0x02, 0x78, 0x03, 0x6f, 0x6e, 0x65, 0x01,
                      0x78, 0x03, 0x74, 0x77, 0x6f, 0x02]\<rparr>)"
  by code_simp

subsection \<open>The claims\<close>

text \<open>
  Claim C1 (round trip): for every value that \<^verbatim>\<open>Encode\<close> accepts, decoding the bytes
  into a fresh destination of the same type succeeds and yields an equal value.

  The code does not do this. \<^verbatim>\<open>Encode\<close> accepts the slice \<^verbatim>\<open>[]int{25}\<close> and writes
  \<^verbatim>\<open>98 01 18 19\<close>, a well-formed array holding the integer 25. \<^verbatim>\<open>Decode\<close> into a
  \<^verbatim>\<open>*[]int\<close> succeeds and yields \<^verbatim>\<open>[]int{24}\<close>: the element is read by
  \<^verbatim>\<open>readInt\<close>, which takes the head byte \<^verbatim>\<open>0x18\<close> for the value itself
  (\<^verbatim>\<open>b & 0x1f\<close>) and leaves the byte \<^verbatim>\<open>0x19\<close> unread, where \<^verbatim>\<open>decodeUint\<close>, on
  the top-level path, reads the byte that follows.
\<close>

theorem roundtrip_slice_of_int_25:
  "Encode NewEncoder (IVal (TSlice (TInt KInt)) (VSlice (Some [VInt 25])))
     = (None, \<lparr>w = [0x98, 0x01, 0x18, 0x19]\<rparr>)
   \<and> Decode (NewDecoder [0x98, 0x01, 0x18, 0x19])
         (Some (TPtr (TSlice (TInt KInt)), VPtr (Some (VSlice None))))
     = (Inr (VPtr (Some (VSlice (Some [VInt 24])))), NewDecoder [0x19])"
  by code_simp

text \<open>Two more values that \<^verbatim>\<open>Encode\<close> accepts and that do not come back: a struct is
  written without its keys, so that the first value is taken for a key; the integer 25
  alone does come back, through \<^verbatim>\<open>decodeUint\<close>.\<close>

lemma roundtrip_struct:
  "Encode NewEncoder
      (IVal (TStruct [(bytes_of ''One'', True, NoTag, TInt KInt), (bytes_of ''Two'', True, NoTag, TInt KInt)])
            (VStruct [VInt 1, VInt 2]))
     = (None, \<lparr>w = [0xb8, 0x02, 0x01, 0x02]\<rparr>)
   \<and> Decode (NewDecoder [0xb8, 0x02, 0x01, 0x02])
         (Some (TPtr (TStruct [(bytes_of ''One'', True, NoTag, TInt KInt),
                               (bytes_of ''Two'', True, NoTag, TInt KInt)]),
                VPtr (Some (VStruct [VInt 0, VInt 0]))))
     = (Inl (DecodeFailed EOF), NewDecoder [])"
  by code_simp

lemma roundtrip_int_25:
  "Encode NewEncoder (IVal (TInt KInt) (VInt 25)) = (None, \<lparr>w = [0x18, 0x19]\<rparr>)
   \<and> Decode (NewDecoder [0x18, 0x19]) (Some (TPtr (TInt KInt), VPtr (Some (VInt 0))))
     = (Inr (VPtr (Some (VInt 25))), NewDecoder [])"
  by code_simp

text \<open>
  Claim C2: decoding the 13 bytes \<^verbatim>\<open>A1 65 68 65 6C 6C 6F 65 77 6F 72 6C 64\<close> into a map
  from text to text (a nil \<^verbatim>\<open>map[string]string\<close>) succeeds, consumes the whole input and
  yields the map with the single entry "hello" to "world".
\<close>

theorem decode_hello_world:
  "Decode (NewDecoder [0xA1, 0x65, 0x68, 0x65, 0x6C, 0x6C, 0x6F, 0x65, 0x77, 0x6F, 0x72, 0x6C, 0x64])
      (Some (TPtr (TMap TString TString), VPtr (Some (VMap None))))
     = (Inr (VPtr (Some (VMap (Some [(VString (bytes_of ''hello''), VString (bytes_of ''world''))])))),
        NewDecoder [])"
  by code_simp

text \<open>
  Claim C3: an array, at top level or nested, that declares more elements than
  \<^verbatim>\<open>maxArrayElements\<close> makes \<^verbatim>\<open>Decode\<close> fail with the error of the limit, before any
  allocation.

  The top-level array is checked (\<open>decodeArray_limit\<close> and \<open>BenchmarkDecodeMalformed\<close>
  below). A nested array is not: it is read by \<^verbatim>\<open>decodeSlice\<close>, which allocates the
  declared length without a test (its comment: \<^verbatim>\<open>TODO: add limit.\<close>). With the limit
  set to 1, the input \<^verbatim>\<open>81 82 01 02\<close> (an array of one array of two integers) is
  decoded into a \<^verbatim>\<open>*[][]int\<close> without an error.
\<close>

theorem nested_array_limit_not_enforced:
  "Decode (SetMaxArrayElements (NewDecoder [0x81, 0x82, 0x01, 0x02]) 1)
      (Some (TPtr (TSlice (TSlice (TInt KInt))), VPtr (Some (VSlice None))))
     = (Inr (VPtr (Some (VSlice (Some [VSlice (Some [VInt 1, VInt 2])])))),
        SetMaxArrayElements (NewDecoder []) 1)"
  by code_simp

lemma decodeArray_limit:
  assumes "readArgument dec ai = (Inr n, dec')" and "word_of_int (maxArrayElements dec') < n"
  shows "decodeArray dec t v ai = (Inl ArrayTooLong, dec')"
  using assms by (simp add: decodeArray_def)

lemma BenchmarkDecodeMalformed:
  "Decode (NewDecoder [0x9B, 0x00, 0x00, 0x42, 0xFA, 0x42, 0xFA, 0x42, 0xFA, 0x42])
      (Some (TPtr (TSlice (TUint KUint8)), VPtr (Some (VSlice None))))
     = (Inl (DecodeFailed ArrayTooLong), NewDecoder [0x42])"
  by code_simp

text \<open>
  Claim C4: a map that declares more pairs than \<^verbatim>\<open>maxMapPairs\<close> makes \<^verbatim>\<open>Decode\<close>
  fail with the error of the limit.

  \<^verbatim>\<open>decodeMap\<close> never reads \<^verbatim>\<open>maxMapPairs\<close>, although \<^verbatim>\<open>SetMaxMapPairs\<close> is
  documented with "If the number of pairs in a map exceeds this limit, an error is
  returned". With the limit set to 1, the two pairs of \<^verbatim>\<open>A2 01 02 03 04\<close> are decoded
  into a \<^verbatim>\<open>*map[int]int\<close>.
\<close>

theorem map_pairs_limit_not_enforced:
  "Decode (SetMaxMapPairs (NewDecoder [0xA2, 0x01, 0x02, 0x03, 0x04]) 1)
      (Some (TPtr (TMap (TInt KInt) (TInt KInt)), VPtr (Some (VMap None))))
     = (Inr (VPtr (Some (VMap (Some [(VInt 1, VInt 2), (VInt 3, VInt 4)])))),
        SetMaxMapPairs (NewDecoder []) 1)"
  by code_simp

text \<open>
  The same two pairs are decoded whatever the limit is set to, zero and negative
  values included.
\<close>

lemma map_pairs_limit_ignored:
  "Decode (SetMaxMapPairs (NewDecoder [0xA2, 0x01, 0x02, 0x03, 0x04]) k)
      (Some (TPtr (TMap (TInt KInt) (TInt KInt)), VPtr (Some (VMap None))))
     = (Inr (VPtr (Some (VMap (Some [(VInt 1, VInt 2), (VInt 3, VInt 4)])))),
        SetMaxMapPairs (NewDecoder []) k)"
  by (simp add: Decode_def decodeValue_def readHeader_def readByte_def ReadFull_def
      decodeMap.simps readArgument_def decodeMapLoop.simps newKey_def newVal_def decode.simps
      allocElem_def decodeKind.simps decodeBasic_def readInt_def setValue_def SetInt_def
      storeEntry_def isPtr_def Elem_def thenE_def putEntry_def keyEq_def NewDecoder_def
      SetMaxMapPairs_def Let_def)

text \<open>
  Claim C5: a major type 7 item with additional information 25 (a half-precision float)
  decodes into a float destination as the value widened to \<^verbatim>\<open>float64\<close>.

  As stated the claim fails: \<^verbatim>\<open>F9 3C 00\<close> (1.0) into a \<^verbatim>\<open>*float64\<close> is an error.
\<close>

theorem float16_counterexample:
  "Decode (NewDecoder [0xF9, 0x3C, 0x00]) (Some (TPtr TFloat64, VPtr (Some (VFloat64 0))))
     = (Inl (DecodeFailed Float16NotSupported), NewDecoder [0x3C, 0x00])"
  by code_simp

text \<open>
  Claim C5, amended: a top-level item whose head byte is \<^verbatim>\<open>F9\<close> is rejected. For every
  destination and whatever follows, \<^verbatim>\<open>Decode\<close> fails with "float16 not supported" and
  has consumed the head byte only.
\<close>

theorem float16_rejected_at_top_level:
  "Decode (dec\<lparr>r := 0xF9 # rest\<rparr>) (Some (TPtr t, VPtr (Some x)))
     = (Inl (DecodeFailed Float16NotSupported), dec\<lparr>r := rest\<rparr>)"
  by (simp add: Decode_def decodeValue_def readHeader_Cons decodeSimpleValue_def wrapError_def)

theorem float16_rejected_at_top_level_witness:
  "Decode ((NewDecoder [])\<lparr>r := [0xF9, 0x7C, 0x00]\<rparr>) (Some (TPtr TFloat32, VPtr (Some (VFloat32 0))))
     = (Inl (DecodeFailed Float16NotSupported), (NewDecoder [])\<lparr>r := [0x7C, 0x00]\<rparr>)"
  by (rule float16_rejected_at_top_level)

text \<open>On the nested path a half-precision float is not rejected: \<^verbatim>\<open>readFloat16\<close> reads
  its two bytes as the low 16 bits of a binary32 pattern. The element \<^verbatim>\<open>F9 3C 00\<close> (1.0)
  of an array becomes the \<^verbatim>\<open>float64\<close> with the bits \<^verbatim>\<open>377E000000000000\<close>.\<close>

lemma float16_as_element:
  "Decode (NewDecoder [0x81, 0xF9, 0x3C, 0x00]) (Some (TPtr (TSlice TFloat64), VPtr (Some (VSlice None))))
     = (Inr (VPtr (Some (VSlice (Some [VFloat64 0x377E000000000000])))), NewDecoder [])"
  by code_simp

text \<open>
  Claim C6: a major type 1 item with argument \<open>arg\<close> decodes into a signed integer as
  \<open>- 1 - arg\<close>, as the top-level item and as an element of an array or a map.

  At top level it does (the last two facts below, and \<open>decodeInt_int64\<close>). As an
  element it does not: the element is read by \<^verbatim>\<open>readInt\<close>, which knows no head byte
  of major type 1. It takes \<^verbatim>\<open>0x20\<close> (the integer -1) for the head of an 8-byte
  unsigned integer, so that \<^verbatim>\<open>81 20\<close>, the array \<^verbatim>\<open>[-1]\<close>, and \<^verbatim>\<open>A1 61 61 20\<close>,
  the map \<^verbatim>\<open>{"a": -1}\<close>, fail with \<^verbatim>\<open>EOF\<close>; and it rejects \<^verbatim>\<open>0x37\<close> (the
  integer -24) as an invalid integer value.
\<close>

theorem negative_int_as_element:
  "Decode (NewDecoder [0x81, 0x20]) (Some (TPtr (TSlice (TInt KInt64)), VPtr (Some (VSlice None))))
     = (Inl (DecodeFailed EOF), NewDecoder [])
   \<and> Decode (NewDecoder [0x81, 0x37]) (Some (TPtr (TSlice (TInt KInt64)), VPtr (Some (VSlice None))))
     = (Inl (DecodeFailed (InvalidInteger 0x37)), NewDecoder [])
   \<and> Decode (NewDecoder [0xA1, 0x61, 0x61, 0x20])
         (Some (TPtr (TMap TString (TInt KInt64)), VPtr (Some (VMap None))))
     = (Inl (DecodeFailed EOF), NewDecoder [])
   \<and> Decode (NewDecoder [0x20]) (Some (TPtr (TInt KInt64), VPtr (Some (VInt 0))))
     = (Inr (VPtr (Some (VInt (- 1)))), NewDecoder [])
   \<and> Decode (NewDecoder [0x37]) (Some (TPtr (TInt KInt64), VPtr (Some (VInt 0))))
     = (Inr (VPtr (Some (VInt (- 24)))), NewDecoder [])"
  by code_simp

lemma decodeInt_int64:
  assumes "readArgument dec ai = (Inr n, dec')"
  shows "decodeInt dec (TInt KInt64) v ai = (Inr (VInt (sint (- 1 - n))), dec')"
  using assms
  by (simp add: decodeInt_def decodeUint_def allocElem_def SetUint_def SetInt_def Let_def)

lemma sint_minus_one_minus:
  fixes n :: "64 word"
  assumes "n < 2 ^ 63"
  shows "sint (- 1 - n) = - 1 - uint n"
proof -
  have u: "uint n < 9223372036854775808"
    using assms by (simp add: word_less_alt)
  have p: "0 \<le> uint n"
    by (rule uint_ge_0)
  have "- 1 - n = (word_of_int (- 1 - uint n) :: 64 word)"
    by simp
  then have "sint (- 1 - n) = (- 1 - uint n + 2 ^ 63) mod 2 ^ 64 - 2 ^ 63"
    by (simp only: int_word_sint) simp
  moreover have "(9223372036854775807 - uint n) mod 18446744073709551616
                   = 9223372036854775807 - uint n"
  proof (rule mod_pos_pos_trivial)
    show "0 \<le> 9223372036854775807 - uint n"
      using u by linarith
    show "9223372036854775807 - uint n < 18446744073709551616"
      using p by linarith
  qed
  ultimately show ?thesis
    by simp
qed

text \<open>
  Claim C7: a tag number that is not recognised is discarded and the inner item is decoded
  as if it were not tagged.

  As stated the claim fails: \<^verbatim>\<open>D8 64 01\<close> (tag 100 on the integer 1) into a \<^verbatim>\<open>*int\<close>
  is an error, and the inner item is left unread.
\<close>

theorem unknown_tag_counterexample:
  "Decode (NewDecoder [0xD8, 0x64, 0x01]) (Some (TPtr (TInt KInt), VPtr (Some (VInt 0))))
     = (Inl (DecodeFailed (UnknownTag 100)), NewDecoder [0x01])"
  by code_simp

text \<open>
  Claim C7, amended: at top level, that is when the head byte \<open>b\<close> of the tagged item
  (major type 6) is the first byte that \<^verbatim>\<open>Decode\<close> reads, a tag number \<open>n\<close> outside
  the tags that are recognised (0 to 5, 21 to 29, 32 to 36 and 258 to 274) makes
  \<^verbatim>\<open>Decode\<close> fail with "unknown tag n", for every destination; the decoder stops after
  the tag number and the inner item is not read.
\<close>

theorem unknown_tag_rejected_at_top_level:
  assumes "drop_bit 5 b = 6"
    and "readArgument (dec\<lparr>r := rest\<rparr>) (b AND 0x1f) = (Inr n, dec')"
    and "n \<notin> {0, 1, 2, 3, 4, 5} \<union> {21..29} \<union> {32..36} \<union> {258..274}"
  shows "Decode (dec\<lparr>r := b # rest\<rparr>) (Some (TPtr t, VPtr (Some x)))
     = (Inl (DecodeFailed (UnknownTag n)), dec')"
proof -
  from assms(3) have "n \<noteq> 0" "n \<noteq> 1" "n \<noteq> 2" "n \<noteq> 3" "n \<noteq> 4" "n \<noteq> 5"
    "n \<noteq> 21" "n \<noteq> 22" "n \<noteq> 23" "n \<noteq> 24" "n \<noteq> 25" "n \<noteq> 26" "n \<noteq> 27" "n \<noteq> 28" "n \<noteq> 29"
    by auto
  with assms(1,2) show ?thesis
    by (simp add: Decode_def decodeValue_def readHeader_Cons decodeTag_def wrapError_def)
qed

theorem unknown_tag_rejected_at_top_level_witness:
  "drop_bit 5 (0xD9 :: byte) = 6
   \<and> readArgument ((NewDecoder [])\<lparr>r := [0x03, 0xE8, 0x63, 0x61, 0x62, 0x63]\<rparr>) (0xD9 AND 0x1f)
       = (Inr 1000, (NewDecoder [])\<lparr>r := [0x63, 0x61, 0x62, 0x63]\<rparr>)
   \<and> (1000 :: 64 word) \<notin> {0, 1, 2, 3, 4, 5} \<union> {21..29} \<union> {32..36} \<union> {258..274}
   \<and> Decode ((NewDecoder [])\<lparr>r := [0xD9, 0x03, 0xE8, 0x63, 0x61, 0x62, 0x63]\<rparr>)
         (Some (TPtr TString, VPtr (Some (VString []))))
       = (Inl (DecodeFailed (UnknownTag 1000)), (NewDecoder [])\<lparr>r := [0x63, 0x61, 0x62, 0x63]\<rparr>)"
proof -
  have a: "drop_bit 5 (0xD9 :: byte) = 6"
    by simp
  have b: "readArgument ((NewDecoder [])\<lparr>r := [0x03, 0xE8, 0x63, 0x61, 0x62, 0x63]\<rparr>) (0xD9 AND 0x1f)
       = (Inr 1000, (NewDecoder [])\<lparr>r := [0x63, 0x61, 0x62, 0x63]\<rparr>)"
    by (simp add: readArgument_def readUint16_def ReadFull_def NewDecoder_def)
  have c: "(1000 :: 64 word) \<notin> {0, 1, 2, 3, 4, 5} \<union> {21..29} \<union> {32..36} \<union> {258..274}"
    by simp
  from unknown_tag_rejected_at_top_level [OF a b c] a b c show ?thesis
    by simp
qed

text \<open>
  The amended claim stops at the top level. An element of an array or a map is read by
  the readers of the nested path, which have no case for major type 6: in
  \<^verbatim>\<open>81 D8 64 01\<close> into a \<^verbatim>\<open>*[]uint\<close> the head byte \<^verbatim>\<open>D8\<close> of the tag is taken
  by \<^verbatim>\<open>readUint\<close> for the integer 216, without an error, and \<^verbatim>\<open>64 01\<close> is left
  unread.
\<close>

lemma unknown_tag_as_element:
  "Decode (NewDecoder [0x81, 0xD8, 0x64, 0x01])
      (Some (TPtr (TSlice (TUint KUint)), VPtr (Some (VSlice None))))
     = (Inr (VPtr (Some (VSlice (Some [VUint 216])))), NewDecoder [0x64, 0x01])"
  by code_simp

text \<open>
  Claim C8: when a map is decoded into a struct, a pair whose key matches no field is
  consumed and its value discarded without an error, whatever the value is, and the fields
  that no pair names keep their zero values.

  The struct case of \<^verbatim>\<open>decodeMap\<close> means to do so ("Read the value and discard it"), but
  \<^verbatim>\<open>readValue\<close> knows the head bytes \<^verbatim>\<open>00\<close> to \<^verbatim>\<open>22\<close> and \<^verbatim>\<open>30\<close> to \<^verbatim>\<open>3F\<close>
  only: a text string, a byte string, an array, a map, a float or a simple value is an
  "invalid value". \<^verbatim>\<open>A1 61 78 61 79\<close>, the map \<^verbatim>\<open>{"x": "y"}\<close>, into a struct with the
  single field \<^verbatim>\<open>Hello string `cbor:"hello"`\<close> fails.
\<close>

theorem unknown_key_with_text_value:
  "Decode (NewDecoder [0xA1, 0x61, 0x78, 0x61, 0x79])
      (Some (TPtr (TStruct [(bytes_of ''Hello'', True, CborTag (bytes_of ''hello''), TString)]),
             VPtr (Some (VStruct [VString []]))))
     = (Inl (DecodeFailed (CannotSkipValue (InvalidValue 0x61))), NewDecoder [0x79])"
  by code_simp

text \<open>A small unsigned integer is skipped, and the field keeps its zero value. A struct
  that is an element of a slice is decoded by \<^verbatim>\<open>decodeStruct\<close>, which fails on every
  key that matches no field.\<close>

lemma unknown_key_with_small_integer:
  "Decode (NewDecoder [0xA1, 0x61, 0x78, 0x01])
      (Some (TPtr (TStruct [(bytes_of ''Hello'', True, CborTag (bytes_of ''hello''), TString)]),
             VPtr (Some (VStruct [VString []]))))
     = (Inr (VPtr (Some (VStruct [VString []]))), NewDecoder [])"
  by code_simp

lemma unknown_key_in_nested_struct:
  "Decode (NewDecoder [0x81, 0xA1, 0x61, 0x78, 0x01])
      (Some (TPtr (TSlice (TStruct [(bytes_of ''Hello'', True, CborTag (bytes_of ''hello''), TString)])),
             VPtr (Some (VSlice None))))
     = (Inl (DecodeFailed (UnknownField (bytes_of ''x''))), NewDecoder [0x01])"
  by code_simp

text \<open>
  Claim C9: a head byte with additional information 28, 29 or 30 makes the decoder fail
  with a malformed-input error, for every major type.

  As stated the claim fails: the byte \<^verbatim>\<open>1C\<close> (major type 0, additional information 28)
  decodes into a \<^verbatim>\<open>*uint64\<close> as 28.
\<close>

theorem reserved_ai_counterexample:
  "Decode (NewDecoder [0x1C]) (Some (TPtr (TUint KUint64), VPtr (Some (VUint 0))))
     = (Inr (VPtr (Some (VUint 28))), NewDecoder [])"
  by code_simp

text \<open>
  Three facts on major type 6: the tags 28 and 29 are cases of the switch of
  \<^verbatim>\<open>decodeTag\<close> that never succeed, because \<^verbatim>\<open>decode\<close> fails unless the
  destination is a pointer and the test of the kind that follows fails when it is one.
\<close>

lemma andThen_isl:
  "(\<And>x d. isl (fst (f x d))) \<Longrightarrow> isl (fst (andThen m f))"
  by (cases m) (auto simp: andThen_def split: sum.splits)

lemma decodeTag_28_29:
  assumes "ai = 28 \<or> ai = 29"
  shows "isl (fst (decodeTag dec t v ai))"
proof -
  from assms consider "ai = 28" | "ai = 29" by auto
  then show ?thesis
  proof cases
    case 1
    then show ?thesis
      by (simp add: decodeTag_def readArgument_def andThen_isl)
  next
    case 2
    show ?thesis
    proof (cases "isPtr t")
      case True
      then have "\<And>v. afterSliceTest 29 t v = Inl CannotUnmarshalTagged"
        by (cases t) (simp_all add: afterSliceTest_def isPtr_def)
      with 2 show ?thesis
        by (simp add: decodeTag_def readArgument_def andThen_isl)
    next
      case False
      with 2 show ?thesis
        by (simp add: decodeTag_def readArgument_def decode_not_pointer)
    qed
  qed
qed

lemma Decode_isl:
  "isl (fst (decodeValue dec t x)) \<Longrightarrow> isl (fst (Decode dec (Some (TPtr t, VPtr (Some x)))))"
  by (cases "decodeValue dec t x") (auto simp: Decode_def split: sum.splits)

text \<open>
  Claim C9, amended: at top level, that is when the head byte is the first byte that
  \<^verbatim>\<open>Decode\<close> reads, a head byte with an additional information \<open>ai\<close> of 28, 29 or 30
  is an error for the major types 7 and 6 and is accepted for the major types 0 to 5,
  where \<open>ai\<close> is taken as the argument.

  \<^item> Major type 0 into a \<^verbatim>\<open>*uint64\<close> is the integer \<open>ai\<close>, and major type 1 into
    a \<^verbatim>\<open>*int64\<close> is the integer \<open>-1 - ai\<close>.
  \<^item> Major type 2 into a \<^verbatim>\<open>*[]byte\<close> and major type 3 into a \<^verbatim>\<open>*string\<close> are the
    \<open>ai\<close> bytes \<open>bs\<close> that follow the head.
  \<^item> Major type 4 followed by \<open>ai\<close> items \<^verbatim>\<open>01\<close> is, into a \<^verbatim>\<open>*[]int\<close>, the slice
    of \<open>ai\<close> ones.
  \<^item> Major type 5 followed by \<open>ai\<close> pairs of a one-letter text key (the letters from
    \<^verbatim>\<open>A\<close> on) and the value \<^verbatim>\<open>01\<close> is, into a \<^verbatim>\<open>*map[string]int\<close>, the map of
    these \<open>ai\<close> entries.
  \<^item> The major types 2, 4 and 5 are stated for the decoder \<^verbatim>\<open>NewDecoder\<close> returns,
    with its limits; the other major types for every decoder.
  \<^item> For major type 6, \<open>ai\<close> is taken as the tag number and \<^verbatim>\<open>Decode\<close> does not
    succeed, whatever the destination: 30 is "unknown tag 30", and 28 and 29 are tags of
    the switch of \<^verbatim>\<open>decodeTag\<close>, whose cases fail.
  \<^item> For major type 7, \<^verbatim>\<open>Decode\<close> fails with "invalid simple value", whatever the
    destination, after the head byte.
\<close>

theorem reserved_ai_at_top_level:
  assumes "ai \<in> {28, 29, 30}" and "length bs = unat ai"
  shows "Decode (dec\<lparr>r := ai # rest\<rparr>) (Some (TPtr (TUint KUint64), VPtr (Some (VUint 0))))
        = (Inr (VPtr (Some (VUint (uint ai)))), dec\<lparr>r := rest\<rparr>)
    \<and> Decode (dec\<lparr>r := (0x20 OR ai) # rest\<rparr>) (Some (TPtr (TInt KInt64), VPtr (Some (VInt 0))))
        = (Inr (VPtr (Some (VInt (- 1 - uint ai)))), dec\<lparr>r := rest\<rparr>)
    \<and> Decode (NewDecoder ((0x40 OR ai) # bs @ rest))
          (Some (TPtr (TSlice (TUint KUint8)), VPtr (Some (VSlice None))))
        = (Inr (VPtr (Some (VSlice (Some (map (\<lambda>b. VUint (uint b)) bs))))), NewDecoder rest)
    \<and> Decode (dec\<lparr>r := (0x60 OR ai) # bs @ rest\<rparr>) (Some (TPtr TString, VPtr (Some (VString []))))
        = (Inr (VPtr (Some (VString bs))), dec\<lparr>r := rest\<rparr>)
    \<and> Decode (NewDecoder ((0x80 OR ai) # replicate (unat ai) 0x01))
          (Some (TPtr (TSlice (TInt KInt)), VPtr (Some (VSlice None))))
        = (Inr (VPtr (Some (VSlice (Some (replicate (unat ai) (VInt 1)))))), NewDecoder [])
    \<and> Decode (NewDecoder ((0xA0 OR ai)
                  # concat (map (\<lambda>i. [0x61, word_of_int i, 0x01]) [65..64 + uint ai])))
          (Some (TPtr (TMap TString (TInt KInt)), VPtr (Some (VMap None))))
        = (Inr (VPtr (Some (VMap (Some
                 (map (\<lambda>i. (VString [word_of_int i], VInt 1)) [65..64 + uint ai]))))),
           NewDecoder [])
    \<and> isl (fst (Decode (dec\<lparr>r := (0xC0 OR ai) # rest\<rparr>) (Some (TPtr t, VPtr (Some y)))))
    \<and> Decode (dec\<lparr>r := 0xDE # rest\<rparr>) (Some (TPtr t, VPtr (Some y)))
        = (Inl (DecodeFailed (UnknownTag 30)), dec\<lparr>r := rest\<rparr>)
    \<and> Decode (dec\<lparr>r := (0xE0 OR ai) # rest\<rparr>) (Some (TPtr t, VPtr (Some y)))
        = (Inl (DecodeFailed (InvalidSimpleValue ai)), dec\<lparr>r := rest\<rparr>)"
proof -
  from assms(1) have ai: "ai = 28 \<or> ai = 29 \<or> ai = 30"
    by simp
  have m0: "Decode (dec\<lparr>r := ai # rest\<rparr>) (Some (TPtr (TUint KUint64), VPtr (Some (VUint 0))))
        = (Inr (VPtr (Some (VUint (uint ai)))), dec\<lparr>r := rest\<rparr>)"
    using ai
    by (auto simp: Decode_def decodeValue_def readHeader_Cons decodeUint_def readArgument_def
        SetUint_def)
  have m1: "Decode (dec\<lparr>r := (0x20 OR ai) # rest\<rparr>) (Some (TPtr (TInt KInt64), VPtr (Some (VInt 0))))
        = (Inr (VPtr (Some (VInt (- 1 - uint ai)))), dec\<lparr>r := rest\<rparr>)"
    using ai
    by (auto simp: Decode_def decodeValue_def readHeader_Cons decodeInt_def decodeUint_def
        readArgument_def SetUint_def SetInt_def allocElem_def Let_def)
  have m2: "Decode (NewDecoder ((0x40 OR ai) # bs @ rest))
          (Some (TPtr (TSlice (TUint KUint8)), VPtr (Some (VSlice None))))
        = (Inr (VPtr (Some (VSlice (Some (map (\<lambda>b. VUint (uint b)) bs))))), NewDecoder rest)"
    using ai assms(2)
    by (auto simp: Decode_def decodeValue_def readHeader_def readByte_def decodeBytes_def
        readArgument_def ReadFull_def NewDecoder_def DefaultMaxValue_def)
  have m3: "Decode (dec\<lparr>r := (0x60 OR ai) # bs @ rest\<rparr>) (Some (TPtr TString, VPtr (Some (VString []))))
        = (Inr (VPtr (Some (VString bs))), dec\<lparr>r := rest\<rparr>)"
    using ai assms(2)
    by (auto simp: Decode_def decodeValue_def readHeader_Cons decodeString_def
        readArgument_def ReadFull_def)
  have m4: "Decode (NewDecoder ((0x80 OR ai) # replicate (unat ai) 0x01))
          (Some (TPtr (TSlice (TInt KInt)), VPtr (Some (VSlice None))))
        = (Inr (VPtr (Some (VSlice (Some (replicate (unat ai) (VInt 1)))))), NewDecoder [])"
    using ai
  proof (elim disjE)
    assume "ai = 28" then show ?thesis by (simp only:) code_simp
  next
    assume "ai = 29" then show ?thesis by (simp only:) code_simp
  next
    assume "ai = 30" then show ?thesis by (simp only:) code_simp
  qed
  have m5: "Decode (NewDecoder ((0xA0 OR ai)
                  # concat (map (\<lambda>i. [0x61, word_of_int i, 0x01]) [65..64 + uint ai])))
          (Some (TPtr (TMap TString (TInt KInt)), VPtr (Some (VMap None))))
        = (Inr (VPtr (Some (VMap (Some
                 (map (\<lambda>i. (VString [word_of_int i], VInt 1)) [65..64 + uint ai]))))),
           NewDecoder [])"
    using ai
  proof (elim disjE)
    assume "ai = 28" then show ?thesis by (simp only:) code_simp
  next
    assume "ai = 29" then show ?thesis by (simp only:) code_simp
  next
    assume "ai = 30" then show ?thesis by (simp only:) code_simp
  qed
  have h6: "drop_bit 5 (0xC0 OR ai) = 6" "(0xC0 OR ai) AND 0x1f = ai"
    using ai by auto
  have m6: "isl (fst (Decode (dec\<lparr>r := (0xC0 OR ai) # rest\<rparr>) (Some (TPtr t, VPtr (Some y)))))"
  proof (cases "ai = 30")
    case True
    then show ?thesis
      by (simp add: Decode_def decodeValue_def readHeader_Cons decodeTag_def readArgument_def
          wrapError_def)
  next
    case False
    with ai have "ai = 28 \<or> ai = 29" by simp
    from decodeTag_28_29 [OF this] h6 show ?thesis
      by (intro Decode_isl) (simp add: decodeValue_def readHeader_Cons)
  qed
  have m6': "Decode (dec\<lparr>r := 0xDE # rest\<rparr>) (Some (TPtr t, VPtr (Some y)))
        = (Inl (DecodeFailed (UnknownTag 30)), dec\<lparr>r := rest\<rparr>)"
    by (simp add: Decode_def decodeValue_def readHeader_Cons decodeTag_def readArgument_def
        wrapError_def)
  have m7: "Decode (dec\<lparr>r := (0xE0 OR ai) # rest\<rparr>) (Some (TPtr t, VPtr (Some y)))
        = (Inl (DecodeFailed (InvalidSimpleValue ai)), dec\<lparr>r := rest\<rparr>)"
    using ai
    by (auto simp: Decode_def decodeValue_def readHeader_Cons decodeSimpleValue_def wrapError_def)
  from m0 m1 m2 m3 m4 m5 m6 m6' m7 show ?thesis
    by (intro conjI)
qed


theorem reserved_ai_at_top_level_witness:
  "(29 :: byte) \<in> {28, 29, 30}
    \<and> length (replicate 29 (0x61 :: byte)) = unat (29 :: byte)
    \<and> Decode ((NewDecoder [])\<lparr>r := [0x1D, 0xFF]\<rparr>) (Some (TPtr (TUint KUint64), VPtr (Some (VUint 0))))
        = (Inr (VPtr (Some (VUint 29))), (NewDecoder [])\<lparr>r := [0xFF]\<rparr>)
    \<and> Decode ((NewDecoder [])\<lparr>r := [0x3D, 0xFF]\<rparr>) (Some (TPtr (TInt KInt64), VPtr (Some (VInt 0))))
        = (Inr (VPtr (Some (VInt (- 30)))), (NewDecoder [])\<lparr>r := [0xFF]\<rparr>)
    \<and> Decode (NewDecoder (0x5D # replicate 29 0x61 @ [0xFF]))
          (Some (TPtr (TSlice (TUint KUint8)), VPtr (Some (VSlice None))))
        = (Inr (VPtr (Some (VSlice (Some (replicate 29 (VUint 0x61)))))), NewDecoder [0xFF])
    \<and> Decode ((NewDecoder [])\<lparr>r := 0x7D # replicate 29 0x61 @ [0xFF]\<rparr>)
          (Some (TPtr TString, VPtr (Some (VString []))))
        = (Inr (VPtr (Some (VString (replicate 29 0x61)))), (NewDecoder [])\<lparr>r := [0xFF]\<rparr>)
    \<and> Decode (NewDecoder (0x9D # replicate 29 0x01))
          (Some (TPtr (TSlice (TInt KInt)), VPtr (Some (VSlice None))))
        = (Inr (VPtr (Some (VSlice (Some (replicate 29 (VInt 1)))))), NewDecoder [])
    \<and> Decode (NewDecoder (0xBD # concat (map (\<lambda>i. [0x61, word_of_int i, 0x01]) [65..93])))
          (Some (TPtr (TMap TString (TInt KInt)), VPtr (Some (VMap None))))
        = (Inr (VPtr (Some (VMap (Some (map (\<lambda>i. (VString [word_of_int i], VInt 1)) [65..93]))))),
           NewDecoder [])
    \<and> isl (fst (Decode ((NewDecoder [])\<lparr>r := [0xDD, 0xFF]\<rparr>)
                    (Some (TPtr TBool, VPtr (Some (VBool False))))))
    \<and> Decode ((NewDecoder [])\<lparr>r := [0xDE, 0xFF]\<rparr>) (Some (TPtr TBool, VPtr (Some (VBool False))))
        = (Inl (DecodeFailed (UnknownTag 30)), (NewDecoder [])\<lparr>r := [0xFF]\<rparr>)
    \<and> Decode ((NewDecoder [])\<lparr>r := [0xFD, 0xFF]\<rparr>) (Some (TPtr TBool, VPtr (Some (VBool False))))
        = (Inl (DecodeFailed (InvalidSimpleValue 29)), (NewDecoder [])\<lparr>r := [0xFF]\<rparr>)"
proof -
  have a: "(29 :: byte) \<in> {28, 29, 30}"
    by simp
  have b: "length (replicate 29 (0x61 :: byte)) = unat (29 :: byte)"
    by simp
  from reserved_ai_at_top_level
         [OF a b, where dec = "NewDecoder []" and rest = "[0xFF]" and t = TBool and y = "VBool False"]
       a b
  show ?thesis
    by simp
qed

text \<open>
  The amended claim stops at the top level. On the nested path the head byte is given to
  a reader of the kind of the destination: \<^verbatim>\<open>FC\<close> (major type 7, additional
  information 28) as the element of a \<^verbatim>\<open>[]float64\<close> is taken by \<^verbatim>\<open>readFloat\<close> for the
  number 252.
\<close>

lemma reserved_ai_as_element:
  "Decode (NewDecoder [0x81, 0xFC])
      (Some (TPtr (TSlice TFloat64), VPtr (Some (VSlice None))))
     = (Inr (VPtr (Some (VSlice (Some [VFloat64 0x406F800000000000])))), NewDecoder [])"
  by code_simp

text \<open>
  Claim C10: when the destination given to \<^verbatim>\<open>Decode\<close> or \<^verbatim>\<open>Unmarshal\<close> is not a
  pointer, or is a nil pointer, the call returns an error and the decoder has consumed
  nothing: its reader is where it was.

  The untyped \<^verbatim>\<open>nil\<close> is not a pointer: \<^verbatim>\<open>reflect.ValueOf(nil)\<close> is the invalid
  value, its kind is not \<^verbatim>\<open>reflect.Ptr\<close>, and \<^verbatim>\<open>Decode\<close> takes the branch of the
  destination that is not a pointer. To build the message of the error the branch calls
  \<^verbatim>\<open>rv.Type()\<close>, which panics on the invalid value: \<^verbatim>\<open>Decode(nil)\<close> and
  \<^verbatim>\<open>Unmarshal(data, nil)\<close> do not return an error, they do not return. The comment of
  \<^verbatim>\<open>Unmarshal\<close> promises the error: "If v is nil or not a pointer, Unmarshal returns an
  InvalidUnmarshalError".
\<close>

theorem untyped_nil_destination_panics:
  "Decode dec None = (Inl Panic, dec) \<and> Unmarshal data None = (Inl Panic, NewDecoder data)"
  by (simp add: Decode_def Unmarshal_def)

text \<open>
  For a destination \<open>x\<close> that has a type \<open>t\<close> the code does what the claim says: the
  error is returned before any read.
\<close>

lemma typed_invalid_destination:
  assumes "\<not> isPtr t \<or> x = VPtr None"
  shows "Decode dec (Some (t, x)) = (Inl (if isPtr t then DecodeNil else DecodeNonPointer), dec)
    \<and> Unmarshal data (Some (t, x))
        = (Inl (if isPtr t then DecodeNil else DecodeNonPointer), NewDecoder data)"
  using assms by (cases t) (auto simp: Decode_def Unmarshal_def isPtr_def)

lemma typed_invalid_destination_examples:
  "Decode (NewDecoder [0x01]) (Some (TInt KInt, VInt 0)) = (Inl DecodeNonPointer, NewDecoder [0x01])
   \<and> Unmarshal [0x01] (Some (TInt KInt, VInt 0)) = (Inl DecodeNonPointer, NewDecoder [0x01])
   \<and> Decode (NewDecoder [0x01]) (Some (TPtr (TInt KInt), VPtr None)) = (Inl DecodeNil, NewDecoder [0x01])
   \<and> Unmarshal [0x01] (Some (TPtr (TInt KInt), VPtr None)) = (Inl DecodeNil, NewDecoder [0x01])"
  by code_simp

end
